theory Spec2Isabelle
  imports Complex_Main "HOL-Library.Sublist"
begin

section \<open>Values of the JavaScript program\<close>

text \<open>
  A JavaScript number is modelled as a rational: coordinates, distances and durations
  are finite numbers, and strict equality \<open>===\<close> on finite numbers is equality of
  their values. \<open>NaN\<close> and the infinities are outside the model. Clock reads
  (\<open>Date.now()\<close>, \<open>new Date()\<close>) are integers, the milliseconds since the epoch;
  the ISO string of \<open>toISOString()\<close> is represented by the clock read it prints.
\<close>

type_synonym number = rat

section \<open>Storage module (src/unnamed/part\_002)\<close>

text \<open>The argument \<open>{name, lat, lng, address}\<close> of \<open>addFavorite\<close> and
  \<open>addRecentSearch\<close>; \<open>address\<close> may be missing (\<open>undefined\<close>).\<close>

record location =
  loc_name :: string
  loc_lat :: number
  loc_lng :: number
  loc_address :: "string option"

record favorite =
  fav_id :: int
  fav_name :: string
  fav_lat :: number
  fav_lng :: number
  fav_address :: string
  fav_createdAt :: int

record recent_item =
  rec_id :: int
  rec_name :: string
  rec_lat :: number
  rec_lng :: number
  rec_address :: string
  rec_timestamp :: int

text \<open>
  \<open>localStorage\<close>, restricted to the two keys the claims are about. A key holds the
  parsed JSON array, or nothing (\<open>getItem\<close> returns \<open>null\<close>).
\<close>

record local_storage =
  ls_favorites :: "favorite list option"
  ls_recent :: "recent_item list option"

definition empty_storage :: local_storage where
  "empty_storage = \<lparr>ls_favorites = None, ls_recent = None\<rparr>"

text \<open>\<open>Storage.get(key, defaultValue)\<close>: \<open>item ? JSON.parse(item) : defaultValue\<close>.\<close>

definition storage_get :: "'a option \<Rightarrow> 'a \<Rightarrow> 'a" where
  "storage_get item defaultValue = (case item of Some v \<Rightarrow> v | None \<Rightarrow> defaultValue)"

text \<open>
  \<open>Storage.set(key, value)\<close>: \<open>setItem\<close> either stores the value and \<open>set\<close>
  returns \<open>true\<close>, or throws (quota exceeded), the store is left as it was and
  \<open>set\<close> returns \<open>false\<close>. Whether \<open>setItem\<close> succeeds is the environment's
  choice, the argument \<open>ok\<close>. On a failure \<open>set\<close> also writes the line
  "Error writing to localStorage:" to the console; the console is no part of this
  record, so that line is not modelled for the favorites and the recent searches. It
  is modelled for the travel mode, in \<open>setTravelMode\<close> below.
\<close>

definition set_favorites :: "bool \<Rightarrow> favorite list \<Rightarrow> local_storage \<Rightarrow> bool \<times> local_storage" where
  "set_favorites ok v st = (if ok then (True, st\<lparr>ls_favorites := Some v\<rparr>) else (False, st))"

definition set_recent :: "bool \<Rightarrow> recent_item list \<Rightarrow> local_storage \<Rightarrow> bool \<times> local_storage" where
  "set_recent ok v st = (if ok then (True, st\<lparr>ls_recent := Some v\<rparr>) else (False, st))"

text \<open>\<open>x || ''\<close> on an optional string: the empty string and \<open>undefined\<close> are falsy.\<close>

definition or_empty :: "string option \<Rightarrow> string" where
  "or_empty a = (case a of None \<Rightarrow> [] | Some s \<Rightarrow> s)"

definition getFavorites :: "local_storage \<Rightarrow> favorite list" where
  "getFavorites st = storage_get (ls_favorites st) []"

text \<open>\<open>addFavorite(location)\<close>; \<open>now\<close> is the value of \<open>Date.now()\<close>, \<open>date\<close> the
  clock read of \<open>new Date()\<close>.\<close>

definition make_favorite :: "location \<Rightarrow> int \<Rightarrow> int \<Rightarrow> favorite" where
  "make_favorite l now date =
     \<lparr>fav_id = now, fav_name = loc_name l, fav_lat = loc_lat l, fav_lng = loc_lng l,
      fav_address = or_empty (loc_address l), fav_createdAt = date\<rparr>"

definition addFavorite :: "location \<Rightarrow> int \<Rightarrow> int \<Rightarrow> bool \<Rightarrow> local_storage \<Rightarrow> bool \<times> local_storage" where
  "addFavorite l now date ok st =
     (let favorites = getFavorites st;
          favorite = make_favorite l now date
      in set_favorites ok (favorite # favorites) st)"

definition removeFavorite :: "int \<Rightarrow> bool \<Rightarrow> local_storage \<Rightarrow> bool \<times> local_storage" where
  "removeFavorite i ok st =
     (let favorites = getFavorites st;
          updated = filter (\<lambda>fav. fav_id fav \<noteq> i) favorites
      in set_favorites ok updated st)"

text \<open>
  \<open>Array.prototype.slice(0, end)\<close> for an integer \<open>end\<close>: a negative \<open>end\<close> counts
  from the end of the array.
\<close>

definition slice0 :: "int \<Rightarrow> 'a list \<Rightarrow> 'a list" where
  "slice0 e xs =
     (let len = int (length xs);
          final = (if e < 0 then max (len + e) 0 else min e len)
      in take (nat final) xs)"

text \<open>\<open>getRecentSearches(limit = 10)\<close>: \<open>None\<close> is the call without an argument.\<close>

definition getRecentSearches :: "int option \<Rightarrow> local_storage \<Rightarrow> recent_item list" where
  "getRecentSearches limit st =
     (let lim = (case limit of None \<Rightarrow> 10 | Some n \<Rightarrow> n);
          recent = storage_get (ls_recent st) []
      in slice0 lim recent)"

definition make_recent :: "location \<Rightarrow> int \<Rightarrow> int \<Rightarrow> recent_item" where
  "make_recent s now date =
     \<lparr>rec_id = now, rec_name = loc_name s, rec_lat = loc_lat s, rec_lng = loc_lng s,
      rec_address = or_empty (loc_address s), rec_timestamp = date\<rparr>"

definition addRecentSearch :: "location \<Rightarrow> int \<Rightarrow> int \<Rightarrow> bool \<Rightarrow> local_storage \<Rightarrow> bool \<times> local_storage" where
  "addRecentSearch s now date ok st =
     (let recent = getRecentSearches (Some 50) st;
          recent = filter (\<lambda>item. \<not> (rec_lat item = loc_lat s \<and> rec_lng item = loc_lng s)) recent;
          recentItem = make_recent s now date;
          recent = recentItem # recent
      in set_recent ok (slice0 50 recent) st)"

definition clearRecentSearches :: "bool \<Rightarrow> local_storage \<Rightarrow> bool \<times> local_storage" where
  "clearRecentSearches ok st = set_recent ok [] st"

text \<open>The list stored under the recent-searches key, as a read with no limit sees it.\<close>

definition stored_recent :: "local_storage \<Rightarrow> recent_item list" where
  "stored_recent st = storage_get (ls_recent st) []"

section \<open>Numbers as text\<close>

text \<open>Decimal digits of a natural number, and \<open>String(n)\<close> for an integer.\<close>

fun digits :: "nat \<Rightarrow> string" where
  "digits n = (if n < 10 then [char_of (48 + n)] else digits (n div 10) @ [char_of (48 + n mod 10)])"

declare digits.simps [simp del]

definition show_int :: "int \<Rightarrow> string" where
  "show_int i = (if i < 0 then ''-'' @ digits (nat (- i)) else digits (nat i))"

text \<open>
  \<open>x.toFixed(f)\<close>: with \<open>n\<close> the integer for which \<open>n / 10^f\<close> is nearest to
  \<open>|x|\<close> (the larger one of two), the digits of \<open>n\<close> padded with zeros to \<open>f + 1\<close>
  places, a point before the last \<open>f\<close>, and a minus sign for negative \<open>x\<close>. From
  \<open>10^21\<close> on JavaScript prints the exponent form instead, which no distance of the
  program reaches and the model leaves out.

  The model rounds the exact value of \<open>x\<close>. JavaScript rounds the double that \<open>x\<close>
  is, so the two differ where the exact value is a tie and the double is not: for
  \<open>29/20\<close> the model gives "1.5", and the double nearest to 1.45 is below it and
  prints as "1.4". The theorems of the claims evaluate \<open>toFixed\<close> at 1000 / 1000
  only, which is the same in both.
\<close>

definition toFixed :: "nat \<Rightarrow> number \<Rightarrow> string" where
  "toFixed f x =
     (let n = nat \<lfloor>\<bar>x\<bar> * 10 ^ f + 1 / 2\<rfloor>;
          s = (if x < 0 then ''-'' else []);
          b = digits (n mod 10 ^ f)
      in if f = 0 then s @ digits n
         else s @ digits (n div 10 ^ f) @ ''.'' @ replicate (f - length b) (CHR ''0'') @ b)"

text \<open>\<open>Math.round\<close> rounds halves up; \<open>a % b\<close> takes the sign of \<open>a\<close>.\<close>

definition math_round :: "number \<Rightarrow> int" where
  "math_round x = \<lfloor>x + 1 / 2\<rfloor>"

definition js_rem :: "int \<Rightarrow> int \<Rightarrow> int" where
  "js_rem a b = (if a < 0 then - ((- a) mod \<bar>b\<bar>) else a mod \<bar>b\<bar>)"

section \<open>Map and routing state (src/js/map.js, src/unnamed/part\_000)\<close>

record coord =
  lat :: number
  lng :: number

text \<open>\<open>Routing.currentRoute\<close>: \<open>{start: {lat, lng}, end: {lat, lng}}\<close>.\<close>

record endpoints =
  route_start :: coord
  route_end :: coord

text \<open>
  The OSRM response as far as the program reads it. A property the JSON object does not
  have reads as \<open>undefined\<close>, here \<open>None\<close>. \<open>geometry\<close> stands for
  \<open>geometry.coordinates\<close>, a list of \<open>[lng, lat]\<close> pairs.
\<close>

record maneuver =
  man_type :: string
  man_instruction :: "string option"

record route_step =
  step_distance :: number
  step_maneuver :: "maneuver option"

record route_leg =
  leg_steps :: "route_step list option"

record osrm_route =
  geometry :: "(number \<times> number) list option"
  distance :: number
  duration :: number
  legs :: "route_leg list option"

record osrm_response =
  code :: "string option"
  routes :: "osrm_route list option"

datatype js_error = TypeError | ReferenceError | SyntaxError | Error string

text \<open>What \<open>await fetch(url)\<close> followed by \<open>await response.json()\<close> resumes with.\<close>

datatype 'a fetch_reply = Rejected js_error | Json 'a

datatype outcome = Normal | Threw js_error

text \<open>
  The page (index.html) is not among the sources: an element looked up by id is either
  absent, and the code skips it, or present with its content.
\<close>

datatype 'a element = Absent | Element 'a

text \<open>A pictograph is the list of its code points.\<close>

type_synonym glyph = "int list"

record summary =
  sum_icon :: glyph
  sum_distance :: string
  sum_duration :: string

record turn_instruction =
  turn_icon :: glyph
  turn_text :: string
  turn_distance :: string

text \<open>A call \<open>UI.showToast(message, type)\<close>: the pictograph the message starts with,
  the rest of the message after the blank, and the type.\<close>

record toast =
  toast_glyph :: glyph
  toast_text :: string
  toast_type :: string

text \<open>The request \<open>/route/v1/{profile}/{startLng},{startLat};{endLng},{endLat}\<close>.\<close>

record route_request =
  rq_profile :: string
  rq_start :: coord
  rq_end :: coord

text \<open>
  The state of \<open>MapModule\<close> and \<open>Routing\<close> with what they act on. A marker or
  layer held in a field is on the map. \<open>map_present\<close> says that \<open>MapModule.map\<close> is
  not \<open>null\<close>, which is the case exactly when Leaflet's global \<open>L\<close> is defined;
  of Leaflet's own calls on an existing map only \<open>fitBounds\<close> throws, for bounds that
  are not valid. The flag of a panel is its class \<open>hidden\<close>.
\<close>

record app =
  map_present :: bool
  userMarker :: "coord option"
  destinationMarker :: "(coord \<times> string) option"
  routeLayer :: "coord list option"
  userLocation :: "coord option"
  currentRoute :: "endpoints option"
  travelMode :: string
  route_summary :: "summary option element"
  turn_by_turn :: "turn_instruction list element"
  directions_panel_hidden :: "bool element"
  travel_mode_container_hidden :: "bool element"
  toasts :: "toast list"
  console :: "(string \<times> js_error) list"
  fetches :: "route_request list"
  stored_travel_mode :: "string option"

definition showToast :: "glyph \<Rightarrow> string \<Rightarrow> string \<Rightarrow> app \<Rightarrow> app" where
  "showToast g m t s = s\<lparr>toasts := toasts s @ [\<lparr>toast_glyph = g, toast_text = m, toast_type = t\<rparr>]\<rparr>"

definition console_error :: "string \<Rightarrow> js_error \<Rightarrow> app \<Rightarrow> app" where
  "console_error label e s = s\<lparr>console := console s @ [(label, e)]\<rparr>"

text \<open>
  \<open>Storage.setTravelMode(mode)\<close>, which is \<open>Storage.set\<close> of the key of the travel
  mode. \<open>w\<close> is what \<open>localStorage.setItem\<close> does: \<open>None\<close> when it returns,
  \<open>Some e\<close> when it throws \<open>e\<close> (the quota is exceeded, the storage is disabled);
  \<open>Storage.set\<close> catches \<open>e\<close> and writes it to the console.
\<close>

definition setTravelMode :: "string \<Rightarrow> js_error option \<Rightarrow> app \<Rightarrow> app" where
  "setTravelMode m w s =
     (case w of
        None \<Rightarrow> s\<lparr>stored_travel_mode := Some m\<rparr>
      | Some e \<Rightarrow> console_error ''Error writing to localStorage:'' e s)"

text \<open>
  \<open>profiles[this.travelMode] || 'car'\<close> and \<open>modeIcons[this.travelMode] || car\<close>.
  The tables here and in \<open>getInstructionIcon\<close> are object literals; the names of the
  properties every object inherits (\<open>constructor\<close>, \<open>toString\<close>, ...) are no travel
  modes of the page and no maneuver types of OSRM, and are left out.
\<close>

definition osrm_profile :: "string \<Rightarrow> string" where
  "osrm_profile m =
     (if m = ''driving'' then ''car'' else if m = ''walking'' then ''foot''
      else if m = ''cycling'' then ''bike'' else ''car'')"

definition mode_icon :: "string \<Rightarrow> glyph" where
  "mode_icon m =
     (if m = ''driving'' then [0x1F697] else if m = ''walking'' then [0x1F6B6]
      else if m = ''cycling'' then [0x1F6B4] else [0x1F697])"

definition getInstructionIcon :: "string \<Rightarrow> glyph" where
  "getInstructionIcon t =
     (if t = ''turn'' then [0x21AA, 0xFE0F]
      else if t = ''new name'' then [0x27A1, 0xFE0F]
      else if t = ''depart'' then [0x1F680]
      else if t = ''arrive'' then [0x1F3C1]
      else if t = ''merge'' then [0x1F500]
      else if t = ''on ramp'' then [0x2197, 0xFE0F]
      else if t = ''off ramp'' then [0x2198, 0xFE0F]
      else if t = ''fork'' then [0x2442]
      else if t = ''end of road'' then [0x22A3]
      else if t = ''continue'' then [0x2B06, 0xFE0F]
      else if t = ''roundabout'' then [0x2B6E]
      else if t = ''rotary'' then [0x2B6E]
      else if t = ''roundabout turn'' then [0x2B6E]
      else [0x27A1, 0xFE0F])"

subsection \<open>MapModule\<close>

text \<open>
  \<open>drawRoute(coordinates)\<close>. Without a map, \<open>this.map.removeLayer\<close> throws a
  TypeError when there is a route layer, and \<open>L.polyline\<close> a ReferenceError otherwise.
  A line without points has no valid bounds: the new layer is on the map when
  \<open>fitBounds\<close> throws.
\<close>

definition drawRoute :: "coord list \<Rightarrow> app \<Rightarrow> outcome \<times> app" where
  "drawRoute coordinates s =
     (if \<not> map_present s
      then (Threw (if routeLayer s \<noteq> None then TypeError else ReferenceError), s)
      else if coordinates = []
      then (Threw (Error ''Bounds are not valid.''), s\<lparr>routeLayer := Some coordinates\<rparr>)
      else (Normal, s\<lparr>routeLayer := Some coordinates\<rparr>))"

text \<open>\<open>MapModule.clearRoute()\<close>.\<close>

definition map_clearRoute :: "app \<Rightarrow> outcome \<times> app" where
  "map_clearRoute s =
     (if routeLayer s \<noteq> None \<and> \<not> map_present s then (Threw TypeError, s)
      else let s1 = (if routeLayer s \<noteq> None then s\<lparr>routeLayer := None\<rparr> else s)
           in if destinationMarker s1 \<noteq> None \<and> \<not> map_present s1 then (Threw TypeError, s1)
              else (Normal, if destinationMarker s1 \<noteq> None
                            then s1\<lparr>destinationMarker := None\<rparr> else s1))"

subsection \<open>Routing\<close>

text \<open>
  \<open>getRoute\<close> is asynchronous. Its first part runs within the call, up to
  \<open>await fetch(url)\<close>: the toast, the stored endpoints, the request. Nothing in it
  throws.
\<close>

definition getRoute_request :: "number \<Rightarrow> number \<Rightarrow> number \<Rightarrow> number \<Rightarrow> app \<Rightarrow> app" where
  "getRoute_request startLat startLng endLat endLng s =
     (let s1 = showToast [0x1F504] ''Calculating route...'' ''info'' s;
          s2 = s1\<lparr>currentRoute := Some \<lparr>route_start = \<lparr>lat = startLat, lng = startLng\<rparr>,
                                         route_end = \<lparr>lat = endLat, lng = endLng\<rparr>\<rparr>\<rparr>;
          profile = osrm_profile (travelMode s2)
      in s2\<lparr>fetches := fetches s2 @
              [\<lparr>rq_profile = profile, rq_start = \<lparr>lat = startLat, lng = startLng\<rparr>,
                rq_end = \<lparr>lat = endLat, lng = endLng\<rparr>\<rparr>]\<rparr>)"

text \<open>\<open>displayRouteSummary(distance, duration)\<close>; the summary is the content of
  the element: the icon of the mode, the distance and the duration. The navigation
  button and its listener are left out.\<close>

definition displayRouteSummary :: "string \<Rightarrow> int \<Rightarrow> app \<Rightarrow> app" where
  "displayRouteSummary distanceKm durationMin s =
     (case route_summary s of
        Absent \<Rightarrow> s
      | Element _ \<Rightarrow>
          (let hours = durationMin div 60;
               minutes = js_rem durationMin 60;
               durationText = (if hours > 0 then show_int hours @ ''h '' @ show_int minutes @ ''min''
                               else show_int minutes @ '' min'');
               icon = mode_icon (travelMode s)
           in s\<lparr>route_summary := Element (Some \<lparr>sum_icon = icon, sum_distance = distanceKm @ '' km'',
                                                  sum_duration = durationText\<rparr>)\<rparr>))"

text \<open>One entry of \<open>steps.map(...)\<close> in \<open>displayTurnByTurn\<close>; a step without
  \<open>maneuver\<close> makes \<open>step.maneuver.type\<close> throw.\<close>

definition turn_of_step :: "route_step \<Rightarrow> turn_instruction option" where
  "turn_of_step st =
     (let d = (if step_distance st < 1000 then show_int (math_round (step_distance st)) @ '' m''
               else toFixed 1 (step_distance st / 1000) @ '' km'')
      in case step_maneuver st of
           None \<Rightarrow> None
         | Some m \<Rightarrow>
             Some \<lparr>turn_icon = getInstructionIcon (man_type m),
                   turn_text = (case man_instruction m of None \<Rightarrow> ''Continue''
                                | Some i \<Rightarrow> if i = [] then ''Continue'' else i),
                   turn_distance = d\<rparr>)"

definition displayTurnByTurn :: "route_step list option \<Rightarrow> app \<Rightarrow> outcome \<times> app" where
  "displayTurnByTurn steps s =
     (case turn_by_turn s of
        Absent \<Rightarrow> (Normal, s)
      | Element _ \<Rightarrow>
          (case steps of
             None \<Rightarrow> (Threw TypeError, s)
           | Some sts \<Rightarrow>
               (case those (map turn_of_step sts) of
                  None \<Rightarrow> (Threw TypeError, s)
                | Some instructions \<Rightarrow> (Normal, s\<lparr>turn_by_turn := Element instructions\<rparr>))))"

definition show_directions_panel :: "app \<Rightarrow> app" where
  "show_directions_panel s =
     (case directions_panel_hidden s of Absent \<Rightarrow> s
      | Element _ \<Rightarrow> s\<lparr>directions_panel_hidden := Element False\<rparr>)"

text \<open>\<open>displayRoute(route)\<close>: the state is the one reached when a statement throws.\<close>

definition displayRoute :: "osrm_route \<Rightarrow> app \<Rightarrow> outcome \<times> app" where
  "displayRoute route s =
     (case geometry route of
        None \<Rightarrow> (Threw TypeError, s)
      | Some cs \<Rightarrow>
          (let coordinates = map (\<lambda>c. \<lparr>lat = snd c, lng = fst c\<rparr>) cs
           in case drawRoute coordinates s of
                (Threw e, s1) \<Rightarrow> (Threw e, s1)
              | (Normal, s1) \<Rightarrow>
                  (let distanceKm = toFixed 1 (distance route / 1000);
                       durationMin = \<lceil>duration route / 60\<rceil>;
                       s2 = displayRouteSummary distanceKm durationMin s1
                   in case legs route of
                        None \<Rightarrow> (Threw TypeError, s2)
                      | Some [] \<Rightarrow> (Threw TypeError, s2)
                      | Some (leg # _) \<Rightarrow>
                          (case displayTurnByTurn (leg_steps leg) s2 of
                             (Threw e, s3) \<Rightarrow> (Threw e, s3)
                           | (Normal, s3) \<Rightarrow>
                               (Normal, showToast [0x2713] ''Route calculated'' ''success''
                                          (show_directions_panel s3))))))"

text \<open>
  The rest of \<open>getRoute\<close>, run when the response arrives: the check of the response,
  \<open>displayRoute\<close>, and the \<open>catch\<close> block for whatever was thrown.
\<close>

definition getRoute_try :: "osrm_response fetch_reply \<Rightarrow> app \<Rightarrow> outcome \<times> app" where
  "getRoute_try r s =
     (case r of
        Rejected e \<Rightarrow> (Threw e, s)
      | Json data \<Rightarrow>
          (if code data \<noteq> Some ''Ok'' then (Threw (Error ''No route found''), s)
           else case routes data of
                  None \<Rightarrow> (Threw (Error ''No route found''), s)
                | Some [] \<Rightarrow> (Threw (Error ''No route found''), s)
                | Some (route # _) \<Rightarrow> displayRoute route s))"

definition getRoute_response :: "osrm_response fetch_reply \<Rightarrow> app \<Rightarrow> app" where
  "getRoute_response r s =
     (case getRoute_try r s of
        (Normal, s1) \<Rightarrow> s1
      | (Threw e, s1) \<Rightarrow>
          showToast [0x274C] ''Failed to calculate route'' ''error''
            (console_error ''Routing error:'' e s1))"

text \<open>The click handler of a travel-mode button whose \<open>data-mode\<close> is \<open>m\<close>; the
  class \<open>active\<close> of the buttons is left out.\<close>

definition changeTravelMode :: "string \<Rightarrow> js_error option \<Rightarrow> app \<Rightarrow> app" where
  "changeTravelMode m w s =
     (let s1 = setTravelMode m w (s\<lparr>travelMode := m\<rparr>)
      in case currentRoute s1 of
           None \<Rightarrow> s1
         | Some r \<Rightarrow> getRoute_request (lat (route_start r)) (lng (route_start r))
                       (lat (route_end r)) (lng (route_end r)) s1)"

text \<open>\<open>Routing.clearRoute()\<close>.\<close>

definition hide_panel :: "bool element \<Rightarrow> bool element" where
  "hide_panel p = (case p of Absent \<Rightarrow> Absent | Element _ \<Rightarrow> Element True)"

definition clearRoute :: "app \<Rightarrow> outcome \<times> app" where
  "clearRoute s =
     (case map_clearRoute (s\<lparr>currentRoute := None\<rparr>) of
        (Threw e, s1) \<Rightarrow> (Threw e, s1)
      | (Normal, s1) \<Rightarrow>
          (Normal, s1\<lparr>directions_panel_hidden := hide_panel (directions_panel_hidden s1),
                      travel_mode_container_hidden := hide_panel (travel_mode_container_hidden s1)\<rparr>))"

text \<open>
  \<open>MapModule.setDestination(lat, lng, name = 'Destination')\<close>; \<open>None\<close> is the call
  without a name. The call of \<open>Routing.getRoute\<close> is not awaited: its first part runs
  here.
\<close>

definition setDestination :: "number \<Rightarrow> number \<Rightarrow> string option \<Rightarrow> app \<Rightarrow> outcome \<times> app" where
  "setDestination la lo name s =
     (let nm = (case name of None \<Rightarrow> ''Destination'' | Some n \<Rightarrow> n)
      in if \<not> map_present s
         then (Threw (if destinationMarker s \<noteq> None then TypeError else ReferenceError), s)
         else let s1 = s\<lparr>destinationMarker := Some (\<lparr>lat = la, lng = lo\<rparr>, nm)\<rparr>;
                  s2 = (case userLocation s1 of
                          None \<Rightarrow> s1
                        | Some u \<Rightarrow> getRoute_request (lat u) (lng u) la lo s1)
              in (Normal, showToast [0x1F4CD] ''Destination set'' ''success'' s2))"

section \<open>Search module (src/js/search.js)\<close>

text \<open>
  A character stands for one UTF-16 code unit below 256. \<open>String.prototype.trim\<close>
  removes white space and line terminators from both ends; below 256 these are the
  code units 9 to 13, 32 and 160.
\<close>

definition is_space :: "char \<Rightarrow> bool" where
  "is_space c = ((of_char c :: nat) \<in> set [9, 10, 11, 12, 13, 32, 160])"

definition trim :: "string \<Rightarrow> string" where
  "trim v = rev (dropWhile is_space (rev (dropWhile is_space v)))"

text \<open>An entry of Nominatim's answer, as far as the program reads it.\<close>

record place =
  place_lat :: string
  place_lon :: string
  place_display_name :: string

text \<open>The request \<open>/search?format=json&q={query}&limit=5&addressdetails=1{viewbox}\<close>;
  the view box is \<open>(lng - 0.5, lat - 0.5, lng + 0.5, lat + 0.5)\<close> of the user's location.\<close>

record search_request =
  sq_query :: string
  sq_viewbox :: "(number \<times> number \<times> number \<times> number) option"

text \<open>The content of the element \<open>search-results\<close>: what the page came with, the
  line "No results found", or one item (name, address) per result.\<close>

datatype results_html = PageContent | NoResultsFound | Items "(string \<times> string) list"

record results_el =
  res_hidden :: bool
  res_html :: results_html

text \<open>A timer set by \<open>setTimeout\<close> and not yet run or cleared.\<close>

datatype timer_action = RunSearch string | HideResults

record timer =
  timer_id :: int
  timer_due :: int
  timer_action :: timer_action

text \<open>
  The state of \<open>Search\<close> with the browser's side of it: the pending timers, the
  requests sent, and which of them (by position) have no answer yet. \<open>time_ms\<close> is the
  time in milliseconds of the event being handled.
\<close>

record search =
  searchTimeout :: "int option"
  currentResults :: "place list"
  search_results :: "results_el element"
  pending_timers :: "timer list"
  next_timer_id :: int
  search_fetches :: "search_request list"
  in_flight :: "nat list"
  search_console :: "(string \<times> js_error) list"
  time_ms :: int

definition init_search :: "results_el element \<Rightarrow> search" where
  "init_search el =
     \<lparr>searchTimeout = None, currentResults = [], search_results = el, pending_timers = [],
      next_timer_id = 1, search_fetches = [], in_flight = [], search_console = [], time_ms = 0\<rparr>"

text \<open>\<open>setTimeout(action, delay)\<close> returns the new timer's id; \<open>clearTimeout(id)\<close>
  does nothing for an id that is not pending.\<close>

definition setTimeout :: "timer_action \<Rightarrow> int \<Rightarrow> search \<Rightarrow> int \<times> search" where
  "setTimeout a delay s =
     (next_timer_id s,
      s\<lparr>pending_timers := pending_timers s @
            [\<lparr>timer_id = next_timer_id s, timer_due = time_ms s + delay, timer_action = a\<rparr>],
        next_timer_id := next_timer_id s + 1\<rparr>)"

definition clearTimeout :: "int \<Rightarrow> search \<Rightarrow> search" where
  "clearTimeout i s = s\<lparr>pending_timers := filter (\<lambda>t. timer_id t \<noteq> i) (pending_timers s)\<rparr>"

definition showSearchResults :: "search \<Rightarrow> search" where
  "showSearchResults s =
     (case search_results s of Absent \<Rightarrow> s
      | Element el \<Rightarrow> s\<lparr>search_results := Element (el\<lparr>res_hidden := False\<rparr>)\<rparr>)"

definition hideSearchResults :: "search \<Rightarrow> search" where
  "hideSearchResults s =
     (case search_results s of Absent \<Rightarrow> s
      | Element el \<Rightarrow> s\<lparr>search_results := Element (el\<lparr>res_hidden := True\<rparr>)\<rparr>)"

text \<open>The \<open>input\<close> handler of \<open>setupSearchInput\<close>, for the field's value \<open>v\<close>.\<close>

definition on_input :: "string \<Rightarrow> search \<Rightarrow> search" where
  "on_input v s =
     (let query = trim v;
          s1 = (case searchTimeout s of
                  None \<Rightarrow> s
                | Some i \<Rightarrow> if i = 0 then s else clearTimeout i s)
      in if length query < 3 then hideSearchResults s1
         else (case setTimeout (RunSearch query) 300 s1 of
                 (i, s2) \<Rightarrow> s2\<lparr>searchTimeout := Some i\<rparr>))"

definition on_blur :: "search \<Rightarrow> search" where
  "on_blur s = snd (setTimeout HideResults 200 s)"

definition on_focus :: "search \<Rightarrow> search" where
  "on_focus s = (if length (currentResults s) > 0 then showSearchResults s else s)"

text \<open>
  \<open>performSearch(query)\<close> up to \<open>await fetch(url, ...)\<close>; \<open>userLoc\<close> is
  \<open>MapModule.userLocation\<close> at that moment. The view box is computed here on exact
  values; the program adds and subtracts 0.5 in doubles, so the digits it puts into
  the URL can differ from the exact sum in the last place. The results below read the
  query of a request, not its view box.
\<close>

definition performSearch_request :: "string \<Rightarrow> coord option \<Rightarrow> search \<Rightarrow> search" where
  "performSearch_request query userLoc s =
     (let viewbox = (case userLoc of
                       None \<Rightarrow> None
                     | Some u \<Rightarrow> Some (lng u - 1 / 2, lat u - 1 / 2, lng u + 1 / 2, lat u + 1 / 2))
      in s\<lparr>search_fetches := search_fetches s @ [\<lparr>sq_query = query, sq_viewbox = viewbox\<rparr>],
           in_flight := in_flight s @ [length (search_fetches s)]\<rparr>)"

text \<open>\<open>displaySearchResults(results)\<close>: the name is the display name up to its first
  comma, the address the rest after that comma, trimmed.\<close>

definition result_item :: "place \<Rightarrow> string \<times> string" where
  "result_item r =
     (let name = takeWhile (\<lambda>c. c \<noteq> CHR '','') (place_display_name r)
      in (name, trim (drop (length name + 1) (place_display_name r))))"

definition displaySearchResults :: "place list \<Rightarrow> search \<Rightarrow> search" where
  "displaySearchResults results s =
     (case search_results s of
        Absent \<Rightarrow> s
      | Element el \<Rightarrow>
          if length results = 0
          then showSearchResults (s\<lparr>search_results := Element (el\<lparr>res_html := NoResultsFound\<rparr>)\<rparr>)
          else showSearchResults
                 (s\<lparr>search_results := Element (el\<lparr>res_html := Items (map result_item results)\<rparr>)\<rparr>))"

text \<open>The rest of \<open>performSearch\<close>, run when the answer arrives.\<close>

definition performSearch_response :: "place list fetch_reply \<Rightarrow> search \<Rightarrow> search" where
  "performSearch_response r s =
     (case r of
        Rejected e \<Rightarrow> hideSearchResults (s\<lparr>search_console := search_console s @ [(''Search error:'', e)]\<rparr>)
      | Json data \<Rightarrow> displaySearchResults data (s\<lparr>currentResults := data\<rparr>))"

text \<open>
  What happens to the search box. A timer runs no earlier than it is due; an answer
  comes for a request that was sent and has none yet.
\<close>

datatype event =
    Input string
  | Blur
  | Focus
  | Timeout int "coord option"
  | Reply nat "place list fetch_reply"

definition run_timer :: "timer \<Rightarrow> coord option \<Rightarrow> search \<Rightarrow> search" where
  "run_timer t userLoc s =
     (let s1 = s\<lparr>pending_timers := filter (\<lambda>u. timer_id u \<noteq> timer_id t) (pending_timers s)\<rparr>
      in case timer_action t of
           RunSearch q \<Rightarrow> performSearch_request q userLoc s1
         | HideResults \<Rightarrow> hideSearchResults s1)"

definition handle :: "event \<Rightarrow> search \<Rightarrow> search option" where
  "handle ev s =
     (case ev of
        Input v \<Rightarrow> Some (on_input v s)
      | Blur \<Rightarrow> Some (on_blur s)
      | Focus \<Rightarrow> Some (on_focus s)
      | Timeout i userLoc \<Rightarrow>
          (case find (\<lambda>t. timer_id t = i) (pending_timers s) of
             None \<Rightarrow> None
           | Some t \<Rightarrow> if timer_due t \<le> time_ms s then Some (run_timer t userLoc s) else None)
      | Reply k r \<Rightarrow>
          (if k \<in> set (in_flight s)
           then Some (performSearch_response r (s\<lparr>in_flight := removeAll k (in_flight s)\<rparr>))
           else None))"

text \<open>A run over timed events; \<open>None\<close> when an event cannot happen at its time.\<close>

fun run :: "(int \<times> event) list \<Rightarrow> search \<Rightarrow> search option" where
  "run [] s = Some s"
| "run ((t, ev) # es) s =
     (if t < time_ms s then None
      else case handle ev (s\<lparr>time_ms := t\<rparr>) of None \<Rightarrow> None | Some s1 \<Rightarrow> run es s1)"

section \<open>Sequences of operations and sample data\<close>

text \<open>
  \<open>same_coordinate\<close> is the test of the filter in \<open>addRecentSearch\<close>. \<open>add_all\<close>
  runs a list of calls of \<open>addRecentSearch\<close>, each with its argument and its two clock
  reads, all writes succeeding; \<open>entry_of\<close> is the entry such a call makes and
  \<open>coordinate_of\<close> its coordinate. The sample data are 51 searches of different
  coordinates and a search at (40, -74).
\<close>

definition same_coordinate :: "location \<Rightarrow> recent_item \<Rightarrow> bool" where
  "same_coordinate s item = (rec_lat item = loc_lat s \<and> rec_lng item = loc_lng s)"

fun add_all :: "(location \<times> int \<times> int) list \<Rightarrow> local_storage \<Rightarrow> local_storage" where
  "add_all [] st = st"
| "add_all ((s, now, date) # r) st = add_all r (snd (addRecentSearch s now date True st))"

definition entry_of :: "location \<times> int \<times> int \<Rightarrow> recent_item" where
  "entry_of x = (case x of (s, now, date) \<Rightarrow> make_recent s now date)"

definition coordinate_of :: "location \<times> int \<times> int \<Rightarrow> number \<times> number" where
  "coordinate_of x = (case x of (s, now, date) \<Rightarrow> (loc_lat s, loc_lng s))"

definition example_search :: "int \<Rightarrow> location" where
  "example_search k =
     \<lparr>loc_name = ''Place'', loc_lat = of_int k, loc_lng = - of_int k, loc_address = None\<rparr>"

definition example_adds :: "(location \<times> int \<times> int) list" where
  "example_adds = map (\<lambda>k. (example_search (int k), 1000 + int k, 1000 + int k)) [0..<51]"

definition new_york :: location where
  "new_york = \<lparr>loc_name = ''New York'', loc_lat = 40, loc_lng = - 74, loc_address = Some ''NY, USA''\<rparr>"

text \<open>
  A sequence of calls of \<open>addFavorite\<close> and \<open>removeFavorite\<close>, each with its clock
  reads and the fate of its write. \<open>clock_fresh\<close> says that no \<open>addFavorite\<close> of the
  sequence reads from \<open>Date.now()\<close> the id of a favorite stored at that moment;
  \<open>created\<close> lists the entries the sequence makes.
\<close>

datatype fav_op = AddFavorite location int int bool | RemoveFavorite int bool

fun apply_fav_op :: "fav_op \<Rightarrow> local_storage \<Rightarrow> local_storage" where
  "apply_fav_op (AddFavorite l now date ok) st = snd (addFavorite l now date ok st)"
| "apply_fav_op (RemoveFavorite i ok) st = snd (removeFavorite i ok st)"

fun run_fav_ops :: "fav_op list \<Rightarrow> local_storage \<Rightarrow> local_storage" where
  "run_fav_ops [] st = st"
| "run_fav_ops (x # xs) st = run_fav_ops xs (apply_fav_op x st)"

fun clock_fresh :: "fav_op list \<Rightarrow> local_storage \<Rightarrow> bool" where
  "clock_fresh [] st = True"
| "clock_fresh (AddFavorite l now date ok # xs) st =
     (now \<notin> set (map fav_id (getFavorites st)) \<and>
      clock_fresh xs (apply_fav_op (AddFavorite l now date ok) st))"
| "clock_fresh (RemoveFavorite i ok # xs) st = clock_fresh xs (apply_fav_op (RemoveFavorite i ok) st)"

fun created :: "fav_op list \<Rightarrow> favorite list" where
  "created [] = []"
| "created (AddFavorite l now date ok # xs) = make_favorite l now date # created xs"
| "created (RemoveFavorite i ok # xs) = created xs"

definition home :: location where
  "home = \<lparr>loc_name = ''Home'', loc_lat = 40, loc_lng = - 74, loc_address = Some ''1 Main St''\<rparr>"

definition office :: location where
  "office = \<lparr>loc_name = ''Office'', loc_lat = 41, loc_lng = - 73, loc_address = None\<rparr>"

definition two_adds :: "fav_op list" where
  "two_adds = [AddFavorite home 1000 1000 True, AddFavorite office 2000 2000 True]"

text \<open>
  The upstream failures of a route computation: the request is rejected, the code of the
  response is not "Ok", or it has no route; and what \<open>getRoute\<close> throws for each.
\<close>

fun upstream_failure :: "osrm_response fetch_reply \<Rightarrow> bool" where
  "upstream_failure (Rejected e) = True"
| "upstream_failure (Json d) = (code d \<noteq> Some ''Ok'' \<or> routes d = None \<or> routes d = Some [])"

fun thrown_for :: "osrm_response fetch_reply \<Rightarrow> js_error" where
  "thrown_for (Rejected e) = e"
| "thrown_for (Json d) = Error ''No route found''"

text \<open>
  Sample data: a user at (51.5007, -0.1246), the destination (51.5074, -0.1278), the
  page at its start with a map and that user location, a route of 1000 m and 120 s, and
  the state after the destination was set and that route arrived.
\<close>

definition westminster :: coord where
  "westminster = \<lparr>lat = 515007 / 10000, lng = - (1246 / 10000)\<rparr>"

definition london :: coord where
  "london = \<lparr>lat = 515074 / 10000, lng = - (1278 / 10000)\<rparr>"

definition start_app :: app where
  "start_app =
     \<lparr>map_present = True, userMarker = Some westminster, destinationMarker = None,
      routeLayer = None, userLocation = Some westminster, currentRoute = None,
      travelMode = ''driving'', route_summary = Element None, turn_by_turn = Element [],
      directions_panel_hidden = Element True, travel_mode_container_hidden = Element True,
      toasts = [], console = [], fetches = [], stored_travel_mode = None\<rparr>"

definition depart_step :: route_step where
  "depart_step = \<lparr>step_distance = 1000,
     step_maneuver = Some \<lparr>man_type = ''depart'', man_instruction = Some ''Head north''\<rparr>\<rparr>"

definition ok_route :: osrm_route where
  "ok_route = \<lparr>geometry = Some [(- (1246 / 10000), 515007 / 10000), (- (1278 / 10000), 515074 / 10000)],
     distance = 1000, duration = 120, legs = Some [\<lparr>leg_steps = Some [depart_step]\<rparr>]\<rparr>"

definition ok_response :: "osrm_response fetch_reply" where
  "ok_response = Json \<lparr>code = Some ''Ok'', routes = Some [ok_route]\<rparr>"

text \<open>
  The response \<open>{status: "Ok", routes: [{distance: 1000, duration: 120, legs: [...]}]}\<close>
  read as the program reads it: it has no property \<open>code\<close> and its route has no
  \<open>geometry\<close>. The second response has \<open>code: "Ok"\<close> and still no geometry.
\<close>

definition stub_route :: osrm_route where
  "stub_route = \<lparr>geometry = None, distance = 1000, duration = 120,
     legs = Some [\<lparr>leg_steps = Some [depart_step]\<rparr>]\<rparr>"

definition stub_response :: "osrm_response fetch_reply" where
  "stub_response = Json \<lparr>code = None, routes = Some [stub_route]\<rparr>"

definition stub_response_with_code :: "osrm_response fetch_reply" where
  "stub_response_with_code = Json \<lparr>code = Some ''Ok'', routes = Some [stub_route]\<rparr>"

definition paris :: coord where
  "paris = \<lparr>lat = 488566 / 10000, lng = 23522 / 10000\<rparr>"

definition failure_toast :: toast where
  "failure_toast = \<lparr>toast_glyph = [0x274C], toast_text = ''Failed to calculate route'',
                     toast_type = ''error''\<rparr>"

definition routed_app :: app where
  "routed_app = getRoute_response ok_response
     (snd (setDestination (lat london) (lng london) (Some ''London'') start_app))"

text \<open>
  The same destination when the request fails: nothing is drawn and no summary is
  shown. \<open>quota_exceeded\<close> is the error of a write to a full storage.
\<close>

definition failed_app :: app where
  "failed_app = getRoute_response (Rejected TypeError)
     (snd (setDestination (lat london) (lng london) (Some ''London'') start_app))"

definition quota_exceeded :: js_error where
  "quota_exceeded = Error ''QuotaExceededError''"

text \<open>
  Runs of the search box. \<open>typed\<close>: the queries of the values typed in these events.
  \<open>timers_tracked\<close>: timer ids are positive, as in a browser, and a search that
  waits for its timer is the one \<open>searchTimeout\<close> names; nothing is said of the
  requests sent or unanswered. \<open>waiting\<close>: moreover that search is due at \<open>due\<close>
  or later, as is one that would be started now, the requests sent are \<open>F\<close> and the
  unanswered ones are among \<open>I\<close>. \<open>only_queries\<close>: every search timer and every
  request from position \<open>n\<close> on is for a query of \<open>Q\<close>, and an unanswered request is
  one of \<open>I\<close> or at a position from \<open>n\<close> on.
\<close>

fun typed_of :: "event \<Rightarrow> string list" where
  "typed_of (Input v) = [trim v]"
| "typed_of _ = []"

definition typed :: "(int \<times> event) list \<Rightarrow> string list" where
  "typed es = concat (map (\<lambda>x. typed_of (snd x)) es)"

definition timers_tracked :: "search \<Rightarrow> bool" where
  "timers_tracked s =
     (0 < next_timer_id s \<and>
      list_all (\<lambda>t. timer_action t = HideResults \<or>
                    (searchTimeout s = Some (timer_id t) \<and> timer_id t \<noteq> 0))
        (pending_timers s))"

text \<open>What the results element shows, if the page has one, and what
  \<open>displaySearchResults\<close> puts there for a list of results.\<close>

definition rendered :: "search \<Rightarrow> results_html option" where
  "rendered s = (case search_results s of Absent \<Rightarrow> None | Element el \<Rightarrow> Some (res_html el))"

definition html_of :: "place list \<Rightarrow> results_html" where
  "html_of d = (if length d = 0 then NoResultsFound else Items (map result_item d))"

definition waiting :: "int \<Rightarrow> search_request list \<Rightarrow> nat set \<Rightarrow> search \<Rightarrow> bool" where
  "waiting due F I s =
     (search_fetches s = F \<and> set (in_flight s) \<subseteq> I \<and> 0 < next_timer_id s \<and>
      due \<le> time_ms s + 300 \<and>
      (\<forall>t \<in> set (pending_timers s).
          timer_action t = HideResults \<or>
          (searchTimeout s = Some (timer_id t) \<and> timer_id t \<noteq> 0 \<and> due \<le> timer_due t)))"

definition only_queries :: "string set \<Rightarrow> nat \<Rightarrow> nat set \<Rightarrow> search \<Rightarrow> bool" where
  "only_queries Q n I s =
     ((\<forall>t \<in> set (pending_timers s).
          timer_action t = HideResults \<or> (\<exists>q \<in> Q. timer_action t = RunSearch q)) \<and>
      (\<forall>k \<in> set (in_flight s). k \<in> I \<or> (n \<le> k \<and> k < length (search_fetches s))) \<and>
      (\<forall>k. n \<le> k \<and> k < length (search_fetches s) \<longrightarrow> sq_query (search_fetches s ! k) \<in> Q) \<and>
      n \<le> length (search_fetches s))"

text \<open>
  Sample runs from the page at its start: "Central" and "Central Park" typed 200 ms
  apart; the same typed 400 ms apart with the answers arriving in reverse order; a
  single search with its answer; a search for "Central Park" sent and, while it is
  unanswered, "Cen", "Central" and "Central Station" typed 100 ms apart, with a blur
  in between.
\<close>

definition central_park :: place where
  "central_park = \<lparr>place_lat = ''40.7812'', place_lon = ''-73.9665'',
                    place_display_name = ''Central Park, New York, USA''\<rparr>"

definition central_station :: place where
  "central_station = \<lparr>place_lat = ''-33.8832'', place_lon = ''151.2070'',
                       place_display_name = ''Central Station, Sydney, Australia''\<rparr>"

definition page_search :: search where
  "page_search = init_search (Element \<lparr>res_hidden = True, res_html = PageContent\<rparr>)"

definition debounced_run :: "(int \<times> event) list" where
  "debounced_run =
     [(0, Input ''Central''), (200, Input ''Central Park''), (500, Timeout 2 None),
      (600, Reply 0 (Json [central_park]))]"

definition stale_run :: "(int \<times> event) list" where
  "stale_run =
     [(0, Input ''Central''), (300, Timeout 1 None), (400, Input ''Central Park''),
      (700, Timeout 2 None), (800, Reply 1 (Json [central_park])),
      (900, Reply 0 (Json [central_station]))]"

definition shown_run :: "(int \<times> event) list" where
  "shown_run =
     [(0, Input ''Central Park''), (300, Timeout 1 None), (500, Reply 0 (Json [central_park]))]"

definition busy_prefix :: "(int \<times> event) list" where
  "busy_prefix = [(0, Input ''Central Park''), (300, Timeout 1 None)]"

definition burst_mid :: "(int \<times> event) list" where
  "burst_mid = [(450, Blur), (500, Input ''Central'')]"

definition burst_later :: "(int \<times> event) list" where
  "burst_later =
     [(650, Timeout 3 None), (700, Reply 0 (Json [central_park])), (900, Timeout 5 None),
      (1000, Reply 1 (Json [central_station]))]"

definition burst_run :: "(int \<times> event) list" where
  "burst_run = (400, Input ''Cen'') # burst_mid @ (600, Input ''Central Station'') # burst_later"

text \<open>A route layer or a destination marker exists only on a map.\<close>

definition layers_on_map :: "app \<Rightarrow> bool" where
  "layers_on_map s = (map_present s \<or> (routeLayer s = None \<and> destinationMarker s = None))"

section \<open>Reading the recent searches\<close>

lemma slice0_nonneg: "0 \<le> e \<Longrightarrow> slice0 e xs = take (nat e) xs"
  by (simp add: slice0_def Let_def min_def)

text \<open>
  Claim C10. For every stored list and every limit \<open>n\<close> (a count, so not negative), a
  read returns the first \<open>n\<close> stored entries, hence at most \<open>n\<close> of them and a prefix
  of the stored list; a read without a limit returns the first 10, so of 50 persisted
  entries only the 10 most recent are exposed.
\<close>

theorem getRecentSearches_prefix:
  "(0 \<le> n \<longrightarrow>
      getRecentSearches (Some n) st = take (nat n) (stored_recent st) \<and>
      int (length (getRecentSearches (Some n) st)) \<le> n \<and>
      prefix (getRecentSearches (Some n) st) (stored_recent st)) \<and>
   getRecentSearches None st = take 10 (stored_recent st) \<and>
   (length (stored_recent st) = 50 \<longrightarrow> length (getRecentSearches None st) = 10)"
  by (auto simp: getRecentSearches_def stored_recent_def slice0_nonneg take_is_prefix)

text \<open>A store of 50 entries, read with the limit 2 and without a limit.\<close>

theorem getRecentSearches_prefix_witness:
  "(0::int) \<le> 2 \<and> length (stored_recent (add_all (tl example_adds) empty_storage)) = 50 \<and>
   getRecentSearches (Some 2) (add_all (tl example_adds) empty_storage) =
     take 2 (stored_recent (add_all (tl example_adds) empty_storage)) \<and>
   length (getRecentSearches None (add_all (tl example_adds) empty_storage)) = 10"
proof -
  have h: "length (stored_recent (add_all (tl example_adds) empty_storage)) = 50"
    by code_simp
  from getRecentSearches_prefix[of 2 "add_all (tl example_adds) empty_storage"] h
  show ?thesis by simp
qed

section \<open>Adding recent searches\<close>

lemma stored_after_add:
  "stored_recent (snd (addRecentSearch s now date True st)) =
     take 50 (make_recent s now date # filter (\<lambda>i. \<not> same_coordinate s i) (take 50 (stored_recent st)))"
  by (simp add: addRecentSearch_def getRecentSearches_def set_recent_def stored_recent_def
      slice0_nonneg same_coordinate_def storage_get_def Let_def)

lemma same_coordinate_make [simp]: "same_coordinate s (make_recent s now date)"
  by (simp add: same_coordinate_def make_recent_def)

lemma take_Cons_take: "0 < n \<Longrightarrow> take n (a # take n xs) = take n (a # xs)"
  by (cases n) simp_all

lemma add_all_append: "add_all (xs @ ys) st = add_all ys (add_all xs st)"
  by (induction xs arbitrary: st) auto

lemma same_coordinate_entry:
  "same_coordinate (fst x) (entry_of y) \<longleftrightarrow> coordinate_of y = coordinate_of x"
  by (cases x; cases y) (auto simp: same_coordinate_def entry_of_def coordinate_of_def make_recent_def)

lemma stored_add_all:
  "distinct (map coordinate_of ops) \<Longrightarrow>
     stored_recent (add_all ops empty_storage) = take 50 (rev (map entry_of ops))"
proof (induction ops rule: rev_induct)
  case Nil
  then show ?case by (simp add: stored_recent_def empty_storage_def storage_get_def)
next
  case (snoc x xs)
  obtain s now date where x: "x = (s, now, date)" by (cases x) auto
  from snoc.prems have d: "distinct (map coordinate_of xs)" and nx: "coordinate_of x \<notin> coordinate_of ` set xs"
    by auto
  have ex: "entry_of x = make_recent s now date" by (simp add: x entry_of_def)
  have keep: "\<not> same_coordinate s i" if "i \<in> set (take 50 (rev (map entry_of xs)))" for i
  proof -
    from that have "i \<in> set (rev (map entry_of xs))" by (rule in_set_takeD)
    then obtain y where y: "y \<in> set xs" "i = entry_of y" by auto
    show ?thesis
    proof
      assume "same_coordinate s i"
      with same_coordinate_entry[of x y] x y have "coordinate_of y = coordinate_of x" by simp
      with nx y show False by (metis imageI)
    qed
  qed
  have "stored_recent (add_all (xs @ [x]) empty_storage) =
        take 50 (make_recent s now date #
          filter (\<lambda>i. \<not> same_coordinate s i) (take 50 (take 50 (rev (map entry_of xs)))))"
    by (simp add: add_all_append x stored_after_add snoc.IH[OF d])
  also have "\<dots> = take 50 (make_recent s now date # take 50 (rev (map entry_of xs)))"
    using keep by (simp add: filter_True)
  finally show ?case
    by (simp add: take_Cons_take ex)
qed


lemma coordinate_of_entry: "coordinate_of x = (rec_lat (entry_of x), rec_lng (entry_of x))"
  by (cases x) (simp add: coordinate_of_def entry_of_def make_recent_def)

lemma no_same_after_filter:
  "filter (same_coordinate s) (take n (filter (\<lambda>i. \<not> same_coordinate s i) xs)) = []"
  by (auto simp: filter_empty_conv dest: in_set_takeD)

lemma evict_oldest:
  assumes "distinct (map coordinate_of ops)" "length ops = 51"
  shows "take 50 (rev (map entry_of ops)) = rev (map entry_of (tl ops))"
    and "entry_of (hd ops) \<notin> set (rev (map entry_of (tl ops)))"
proof -
  from assms(2) obtain x xs where ops: "ops = x # xs" and len: "length xs = 50"
    by (cases ops) auto
  show "take 50 (rev (map entry_of ops)) = rev (map entry_of (tl ops))"
    by (simp add: ops len)
  from assms(1) ops have "coordinate_of x \<notin> coordinate_of ` set xs" by simp
  then have "entry_of x \<notin> entry_of ` set xs"
    by (metis (no_types, lifting) coordinate_of_entry image_iff)
  then show "entry_of (hd ops) \<notin> set (rev (map entry_of (tl ops)))"
    by (simp add: ops)
qed

text \<open>
  Claim C4. A write that fails leaves the store as it was. After a successful
  \<open>addRecentSearch\<close>, whatever was stored before, the entry at the front has the
  coordinate, name and address of the search, the id read from \<open>Date.now()\<close> and the
  timestamp read from the clock in this call; the entries of the same coordinate are
  gone from the rest, so exactly one entry has that coordinate, with the latest
  timestamp; and at most 50 entries are stored. After clearing none is. Adding
  entries of pairwise different coordinates to an empty store keeps the 50 newest,
  newest first, each with its own coordinate, id and timestamp: after 51 of them
  exactly 50 are stored and the coordinate of the first one added is gone.
\<close>

theorem addRecentSearch_dedup_and_cap:
  "addRecentSearch s now date False st = (False, st) \<and>
   fst (addRecentSearch s now date True st) = True \<and>
   stored_recent (snd (addRecentSearch s now date True st)) =
     \<lparr>rec_id = now, rec_name = loc_name s, rec_lat = loc_lat s, rec_lng = loc_lng s,
      rec_address = (case loc_address s of None \<Rightarrow> [] | Some a \<Rightarrow> a), rec_timestamp = date\<rparr> #
       take 49 (filter (\<lambda>i. \<not> same_coordinate s i) (take 50 (stored_recent st))) \<and>
   rec_timestamp (hd (stored_recent (snd (addRecentSearch s now date True st)))) = date \<and>
   rec_id (hd (stored_recent (snd (addRecentSearch s now date True st)))) = now \<and>
   filter (same_coordinate s) (stored_recent (snd (addRecentSearch s now date True st))) =
     [\<lparr>rec_id = now, rec_name = loc_name s, rec_lat = loc_lat s, rec_lng = loc_lng s,
       rec_address = (case loc_address s of None \<Rightarrow> [] | Some a \<Rightarrow> a), rec_timestamp = date\<rparr>] \<and>
   length (stored_recent (snd (addRecentSearch s now date True st))) \<le> 50 \<and>
   clearRecentSearches False st = (False, st) \<and>
   stored_recent (snd (clearRecentSearches True st)) = [] \<and>
   (distinct (map coordinate_of ops) \<longrightarrow>
      stored_recent (add_all ops empty_storage) = take 50 (rev (map entry_of ops)) \<and>
      map (\<lambda>e. (rec_lat e, rec_lng e)) (stored_recent (add_all ops empty_storage)) =
        take 50 (rev (map coordinate_of ops)) \<and>
      map rec_id (stored_recent (add_all ops empty_storage)) = take 50 (rev (map (fst \<circ> snd) ops)) \<and>
      map rec_timestamp (stored_recent (add_all ops empty_storage)) =
        take 50 (rev (map (snd \<circ> snd) ops))) \<and>
   (distinct (map coordinate_of ops) \<and> length ops = 51 \<longrightarrow>
      stored_recent (add_all ops empty_storage) = rev (map entry_of (tl ops)) \<and>
      length (stored_recent (add_all ops empty_storage)) = 50 \<and>
      entry_of (hd ops) \<notin> set (stored_recent (add_all ops empty_storage)) \<and>
      map (\<lambda>e. (rec_lat e, rec_lng e)) (stored_recent (add_all ops empty_storage)) =
        rev (map coordinate_of (tl ops)) \<and>
      coordinate_of (hd ops) \<notin>
        set (map (\<lambda>e. (rec_lat e, rec_lng e)) (stored_recent (add_all ops empty_storage))))"
proof -
  let ?st' = "snd (addRecentSearch s now date True st)"
  let ?e = "\<lparr>rec_id = now, rec_name = loc_name s, rec_lat = loc_lat s, rec_lng = loc_lng s,
      rec_address = (case loc_address s of None \<Rightarrow> [] | Some a \<Rightarrow> a), rec_timestamp = date\<rparr>"
  have e: "make_recent s now date = ?e"
    by (simp add: make_recent_def or_empty_def)
  have fail: "addRecentSearch s now date False st = (False, st)"
    by (simp add: addRecentSearch_def set_recent_def Let_def)
  have ok: "fst (addRecentSearch s now date True st) = True"
    by (simp add: addRecentSearch_def set_recent_def Let_def)
  have stored: "stored_recent ?st' = ?e #
       take 49 (filter (\<lambda>i. \<not> same_coordinate s i) (take 50 (stored_recent st)))"
    by (simp add: stored_after_add e[symmetric])
  have front: "rec_timestamp (hd (stored_recent ?st')) = date" "rec_id (hd (stored_recent ?st')) = now"
    by (simp_all add: stored)
  have "same_coordinate s ?e" by (simp add: same_coordinate_def)
  then have one: "filter (same_coordinate s) (stored_recent ?st') = [?e]"
    by (simp add: stored no_same_after_filter)
  have len: "length (stored_recent ?st') \<le> 50"
    by (simp add: stored)
  have clr: "clearRecentSearches False st = (False, st)"
       "stored_recent (snd (clearRecentSearches True st)) = []"
    by (simp_all add: clearRecentSearches_def set_recent_def stored_recent_def storage_get_def)
  have fields: "\<And>x. (rec_lat (entry_of x), rec_lng (entry_of x)) = coordinate_of x"
    "\<And>x. rec_id (entry_of x) = fst (snd x)" "\<And>x. rec_timestamp (entry_of x) = snd (snd x)"
    by (auto simp: entry_of_def coordinate_of_def make_recent_def)
  have many: "stored_recent (add_all ops empty_storage) = take 50 (rev (map entry_of ops)) \<and>
      map (\<lambda>e. (rec_lat e, rec_lng e)) (stored_recent (add_all ops empty_storage)) =
        take 50 (rev (map coordinate_of ops)) \<and>
      map rec_id (stored_recent (add_all ops empty_storage)) = take 50 (rev (map (fst \<circ> snd) ops)) \<and>
      map rec_timestamp (stored_recent (add_all ops empty_storage)) =
        take 50 (rev (map (snd \<circ> snd) ops))"
    if "distinct (map coordinate_of ops)"
    by (simp add: stored_add_all[OF that] take_map rev_map fields comp_def)
  have evict: "stored_recent (add_all ops empty_storage) = rev (map entry_of (tl ops)) \<and>
      length (stored_recent (add_all ops empty_storage)) = 50 \<and>
      entry_of (hd ops) \<notin> set (stored_recent (add_all ops empty_storage)) \<and>
      map (\<lambda>e. (rec_lat e, rec_lng e)) (stored_recent (add_all ops empty_storage)) =
        rev (map coordinate_of (tl ops)) \<and>
      coordinate_of (hd ops) \<notin>
        set (map (\<lambda>e. (rec_lat e, rec_lng e)) (stored_recent (add_all ops empty_storage)))"
    if d: "distinct (map coordinate_of ops)" and l: "length ops = 51"
  proof -
    have eq: "stored_recent (add_all ops empty_storage) = rev (map entry_of (tl ops))"
      using many[OF d] evict_oldest(1)[OF d l] by simp
    from l obtain x xs where ops: "ops = x # xs" by (cases ops) auto
    have co: "map (\<lambda>e. (rec_lat e, rec_lng e)) (rev (map entry_of (tl ops))) =
        rev (map coordinate_of (tl ops))"
      by (simp add: rev_map fields comp_def)
    from d ops have gone: "coordinate_of (hd ops) \<notin> set (rev (map coordinate_of (tl ops)))"
      by simp
    show ?thesis
      using evict_oldest(2)[OF d l] l gone by (simp add: eq co del: set_rev set_map)
  qed
  from fail ok stored front one len clr many evict show ?thesis by blast
qed

text \<open>
  The two examples of the specification: 51 entries of different coordinates, and the
  coordinate (40, -74) added twice, at the clock reads 1 and 2.
\<close>

theorem addRecentSearch_dedup_and_cap_witness:
  "distinct (map coordinate_of example_adds) \<and> length example_adds = 51 \<and>
   length (stored_recent (add_all example_adds empty_storage)) = 50 \<and>
   map rec_timestamp (stored_recent (add_all example_adds empty_storage)) =
     rev (map (\<lambda>k. 1000 + int k) [1..<51]) \<and>
   coordinate_of (hd example_adds) \<notin>
     set (map (\<lambda>e. (rec_lat e, rec_lng e)) (stored_recent (add_all example_adds empty_storage))) \<and>
   stored_recent (snd (addRecentSearch new_york 2 2 True
      (snd (addRecentSearch new_york 1 1 True empty_storage)))) =
     [\<lparr>rec_id = 2, rec_name = ''New York'', rec_lat = 40, rec_lng = - 74,
       rec_address = ''NY, USA'', rec_timestamp = 2\<rparr>]"
proof -
  have h: "distinct (map coordinate_of example_adds) \<and> length example_adds = 51"
    by code_simp
  have twice: "take 49 (filter (\<lambda>i. \<not> same_coordinate new_york i)
      (take 50 (stored_recent (snd (addRecentSearch new_york 1 1 True empty_storage))))) = []"
    by code_simp
  have stamps: "take 50 (rev (map (snd \<circ> snd) example_adds)) = rev (map (\<lambda>k. 1000 + int k) [1..<51])"
    by code_simp
  note T = addRecentSearch_dedup_and_cap[of new_york 2 2
      "snd (addRecentSearch new_york 1 1 True empty_storage)" example_adds]
  from T h have e: "length (stored_recent (add_all example_adds empty_storage)) = 50 \<and>
      coordinate_of (hd example_adds) \<notin>
        set (map (\<lambda>e. (rec_lat e, rec_lng e)) (stored_recent (add_all example_adds empty_storage)))"
    by blast
  from T h have "map rec_timestamp (stored_recent (add_all example_adds empty_storage)) =
        take 50 (rev (map (snd \<circ> snd) example_adds))"
    by blast
  then have st: "map rec_timestamp (stored_recent (add_all example_adds empty_storage)) =
     rev (map (\<lambda>k. 1000 + int k) [1..<51])"
    by (simp only: stamps)
  from T have s: "stored_recent (snd (addRecentSearch new_york 2 2 True
      (snd (addRecentSearch new_york 1 1 True empty_storage)))) =
     \<lparr>rec_id = 2, rec_name = loc_name new_york, rec_lat = loc_lat new_york, rec_lng = loc_lng new_york,
      rec_address = (case loc_address new_york of None \<Rightarrow> [] | Some a \<Rightarrow> a), rec_timestamp = 2\<rparr> #
       take 49 (filter (\<lambda>i. \<not> same_coordinate new_york i)
      (take 50 (stored_recent (snd (addRecentSearch new_york 1 1 True empty_storage)))))"
    by blast
  have s2: "stored_recent (snd (addRecentSearch new_york 2 2 True
      (snd (addRecentSearch new_york 1 1 True empty_storage)))) =
     [\<lparr>rec_id = 2, rec_name = ''New York'', rec_lat = 40, rec_lng = - 74,
       rec_address = ''NY, USA'', rec_timestamp = 2\<rparr>]"
    unfolding s twice by (simp add: new_york_def)
  from h e st s2 show ?thesis by blast
qed

section \<open>Ids of favorites\<close>

lemma getFavorites_add:
  "getFavorites (snd (addFavorite l now date ok st)) =
     (if ok then make_favorite l now date # getFavorites st else getFavorites st)"
  by (simp add: addFavorite_def set_favorites_def getFavorites_def storage_get_def Let_def)

lemma getFavorites_remove:
  "getFavorites (snd (removeFavorite i ok st)) =
     (if ok then filter (\<lambda>fav. fav_id fav \<noteq> i) (getFavorites st) else getFavorites st)"
  by (simp add: removeFavorite_def set_favorites_def getFavorites_def storage_get_def Let_def)

lemma fav_id_make [simp]: "fav_id (make_favorite l now date) = now"
  by (simp add: make_favorite_def)

lemma apply_fav_op_distinct:
  "distinct (map fav_id (getFavorites st)) \<Longrightarrow> clock_fresh (x # xs) st \<Longrightarrow>
     distinct (map fav_id (getFavorites (apply_fav_op x st)))"
  by (cases x) (auto simp: getFavorites_add getFavorites_remove distinct_map_filter)

lemma apply_fav_op_subset:
  "set (getFavorites (apply_fav_op x st)) \<subseteq> set (getFavorites st) \<union> set (created [x])"
  by (cases x) (auto simp: getFavorites_add getFavorites_remove)

lemma created_Cons: "set (created (x # xs)) = set (created [x]) \<union> set (created xs)"
  by (cases x) auto

lemma run_fav_ops_distinct:
  "distinct (map fav_id (getFavorites st)) \<Longrightarrow> clock_fresh ops st \<Longrightarrow>
     distinct (map fav_id (getFavorites (run_fav_ops ops st)))"
proof (induction ops arbitrary: st)
  case Nil
  then show ?case by simp
next
  case (Cons x xs)
  have d: "distinct (map fav_id (getFavorites (apply_fav_op x st)))"
    using Cons.prems by (rule apply_fav_op_distinct)
  have f: "clock_fresh xs (apply_fav_op x st)"
    using Cons.prems(2) by (cases x) auto
  show ?case using Cons.IH[OF d f] by simp
qed

lemma run_fav_ops_subset:
  "set (getFavorites (run_fav_ops ops st)) \<subseteq> set (getFavorites st) \<union> set (created ops)"
proof (induction ops arbitrary: st)
  case Nil
  then show ?case by simp
next
  case (Cons x xs)
  have "set (getFavorites (run_fav_ops (x # xs) st)) \<subseteq>
          set (getFavorites (apply_fav_op x st)) \<union> set (created xs)"
    using Cons.IH[of "apply_fav_op x st"] by simp
  also have "\<dots> \<subseteq> (set (getFavorites st) \<union> set (created [x])) \<union> set (created xs)"
    using apply_fav_op_subset[of x st] by blast
  finally show ?case using created_Cons[of x xs] by blast
qed

lemma filter_other_ids:
  "distinct (map fav_id fs) \<Longrightarrow> f \<in> set fs \<Longrightarrow>
     filter (\<lambda>fav. fav_id fav \<noteq> fav_id f) fs = remove1 f fs"
proof (induction fs)
  case Nil
  then show ?case by simp
next
  case (Cons g gs)
  show ?case
  proof (cases "g = f")
    case True
    from Cons.prems(1) have "fav_id g \<notin> fav_id ` set gs" by simp
    with True have "\<forall>h \<in> set gs. fav_id h \<noteq> fav_id f" by (metis imageI)
    then have "filter (\<lambda>fav. fav_id fav \<noteq> fav_id f) gs = gs" by (simp add: filter_True)
    with True show ?thesis by simp
  next
    case False
    with Cons.prems have "f \<in> set gs" "distinct (map fav_id gs)" "fav_id g \<noteq> fav_id f"
      by (auto simp: image_iff)
    with Cons.IH False show ?thesis by simp
  qed
qed

text \<open>
  Claim C5, amended. An id is the value of \<open>Date.now()\<close> at the call. As long as no
  \<open>addFavorite\<close> reads a clock value that is the id of a favorite stored at that
  moment, the stored ids stay pairwise different; every stored entry is an entry of the
  initial store or the entry an \<open>addFavorite\<close> made, unchanged, so it keeps its id;
  and \<open>removeFavorite\<close> with the id of a stored entry removes that entry and no
  other.
\<close>

theorem favorite_ids_unique_with_fresh_clock:
  assumes "distinct (map fav_id (getFavorites st))" and "clock_fresh ops st"
  shows "distinct (map fav_id (getFavorites (run_fav_ops ops st))) \<and>
         set (getFavorites (run_fav_ops ops st)) \<subseteq> set (getFavorites st) \<union> set (created ops) \<and>
         (\<forall>f \<in> set (getFavorites (run_fav_ops ops st)).
            getFavorites (snd (removeFavorite (fav_id f) True (run_fav_ops ops st))) =
              remove1 f (getFavorites (run_fav_ops ops st)))"
proof -
  have d: "distinct (map fav_id (getFavorites (run_fav_ops ops st)))"
    using assms by (rule run_fav_ops_distinct)
  moreover have "set (getFavorites (run_fav_ops ops st)) \<subseteq> set (getFavorites st) \<union> set (created ops)"
    by (rule run_fav_ops_subset)
  moreover have "getFavorites (snd (removeFavorite (fav_id f) True (run_fav_ops ops st))) =
              remove1 f (getFavorites (run_fav_ops ops st))"
    if "f \<in> set (getFavorites (run_fav_ops ops st))" for f
    using filter_other_ids[OF d that] by (simp add: getFavorites_remove)
  ultimately show ?thesis by blast
qed

text \<open>Two favorites added in different milliseconds; the first is removed by its id.\<close>

theorem favorite_ids_unique_with_fresh_clock_witness:
  "distinct (map fav_id (getFavorites empty_storage)) \<and> clock_fresh two_adds empty_storage \<and>
   distinct (map fav_id (getFavorites (run_fav_ops two_adds empty_storage))) \<and>
   getFavorites (snd (removeFavorite 1000 True (run_fav_ops two_adds empty_storage))) =
     [make_favorite office 2000 2000]"
proof -
  have h1: "distinct (map fav_id (getFavorites empty_storage))" by code_simp
  have h2: "clock_fresh two_adds empty_storage" by code_simp
  have fs: "getFavorites (run_fav_ops two_adds empty_storage) =
      [make_favorite office 2000 2000, make_favorite home 1000 1000]"
    by code_simp
  have ne: "make_favorite office 2000 2000 \<noteq> make_favorite home 1000 1000"
    by (simp add: make_favorite_def)
  note T = favorite_ids_unique_with_fresh_clock[OF h1 h2]
  from T have "getFavorites (snd (removeFavorite (fav_id (make_favorite home 1000 1000)) True
        (run_fav_ops two_adds empty_storage))) =
      remove1 (make_favorite home 1000 1000) (getFavorites (run_fav_ops two_adds empty_storage))"
    by (simp add: fs)
  then have r: "getFavorites (snd (removeFavorite 1000 True (run_fav_ops two_adds empty_storage))) =
     [make_favorite office 2000 2000]"
    using ne by (simp add: fs)
  from T h1 h2 r show ?thesis by blast
qed

text \<open>
  Claim C5 as stated fails: two calls of \<open>addFavorite\<close> within one millisecond give
  two entries the same id, and \<open>removeFavorite\<close> with that id deletes both.
\<close>

theorem favorite_ids_clash_counterexample:
  "\<not> distinct (map fav_id (getFavorites
        (run_fav_ops [AddFavorite home 1000 1000 True, AddFavorite office 1000 1000 True] empty_storage))) \<and>
   getFavorites (snd (removeFavorite 1000 True
        (run_fav_ops [AddFavorite home 1000 1000 True, AddFavorite office 1000 1000 True] empty_storage))) = []"
  by code_simp

section \<open>Routes\<close>

lemma getRoute_request_eq:
  "getRoute_request a b c d s =
     s\<lparr>toasts := toasts s @ [\<lparr>toast_glyph = [0x1F504], toast_text = ''Calculating route...'', toast_type = ''info''\<rparr>],
       currentRoute := Some \<lparr>route_start = \<lparr>lat = a, lng = b\<rparr>, route_end = \<lparr>lat = c, lng = d\<rparr>\<rparr>,
       fetches := fetches s @ [\<lparr>rq_profile = osrm_profile (travelMode s),
                                rq_start = \<lparr>lat = a, lng = b\<rparr>, rq_end = \<lparr>lat = c, lng = d\<rparr>\<rparr>]\<rparr>"
  by (simp add: getRoute_request_def showToast_def Let_def)

lemma getRoute_try_failure:
  "upstream_failure r \<Longrightarrow> getRoute_try r s = (Threw (thrown_for r), s)"
  by (cases r) (auto simp: getRoute_try_def split: option.splits list.splits)

lemma routed_app_facts:
  "map_present routed_app" "userLocation routed_app = Some westminster"
  "currentRoute routed_app = Some \<lparr>route_start = westminster, route_end = london\<rparr>"
  "routeLayer routed_app = Some [westminster, london]"
  "destinationMarker routed_app = Some (london, ''London'')"
  by code_simp+

lemma start_app_facts:
  "map_present start_app" "userLocation start_app = Some westminster"
  "travelMode start_app = ''driving''" "route_summary start_app = Element None"
  "currentRoute start_app = None" "routeLayer start_app = None" "destinationMarker start_app = None"
  "directions_panel_hidden start_app \<noteq> Element False"
  "travel_mode_container_hidden start_app \<noteq> Element False"
  "fetches start_app = []"
  by (simp_all add: start_app_def)

text \<open>
  Claim C1, amended. \<open>getRoute\<close> stores the requested endpoints and sends the
  request before it waits; when the upstream result is a failure, the rest of it, in
  whatever state it resumes, only logs the error and shows the toast "Failed to
  calculate route". So after the call and its failure the failure is reported, one
  request was sent and none is retried, the drawn route, the summary, the turn list,
  the panel and the markers are as before the call, and the stored endpoints are those
  of the failed request.
\<close>

theorem getRoute_failure_reported:
  fixes s :: app and r a b c d
  defines "s2 \<equiv> getRoute_response r (getRoute_request a b c d s)"
  assumes "upstream_failure r"
  shows "getRoute_response r s1 =
           s1\<lparr>console := console s1 @ [(''Routing error:'', thrown_for r)],
              toasts := toasts s1 @ [failure_toast]\<rparr> \<and>
         toasts s2 = toasts s @ [\<lparr>toast_glyph = [0x1F504], toast_text = ''Calculating route...'',
                                   toast_type = ''info''\<rparr>, failure_toast] \<and>
         fetches s2 = fetches s @ [\<lparr>rq_profile = osrm_profile (travelMode s),
                                    rq_start = \<lparr>lat = a, lng = b\<rparr>, rq_end = \<lparr>lat = c, lng = d\<rparr>\<rparr>] \<and>
         routeLayer s2 = routeLayer s \<and> route_summary s2 = route_summary s \<and>
         turn_by_turn s2 = turn_by_turn s \<and>
         directions_panel_hidden s2 = directions_panel_hidden s \<and>
         destinationMarker s2 = destinationMarker s \<and> userMarker s2 = userMarker s \<and>
         userLocation s2 = userLocation s \<and> travelMode s2 = travelMode s \<and>
         currentRoute s2 = Some \<lparr>route_start = \<lparr>lat = a, lng = b\<rparr>, route_end = \<lparr>lat = c, lng = d\<rparr>\<rparr>"
proof -
  have resume: "getRoute_response r u =
      u\<lparr>console := console u @ [(''Routing error:'', thrown_for r)],
        toasts := toasts u @ [failure_toast]\<rparr>" for u
    using assms(2)
    by (simp add: getRoute_response_def getRoute_try_failure showToast_def console_error_def
        failure_toast_def)
  have "s2 = (getRoute_request a b c d s)
      \<lparr>console := console (getRoute_request a b c d s) @ [(''Routing error:'', thrown_for r)],
        toasts := toasts (getRoute_request a b c d s) @ [failure_toast]\<rparr>"
    unfolding s2_def by (rule resume)
  then have s2: "s2 = s\<lparr>toasts := toasts s @ [\<lparr>toast_glyph = [0x1F504], toast_text = ''Calculating route...'',
                                   toast_type = ''info''\<rparr>, failure_toast],
         currentRoute := Some \<lparr>route_start = \<lparr>lat = a, lng = b\<rparr>, route_end = \<lparr>lat = c, lng = d\<rparr>\<rparr>,
         fetches := fetches s @ [\<lparr>rq_profile = osrm_profile (travelMode s),
                                  rq_start = \<lparr>lat = a, lng = b\<rparr>, rq_end = \<lparr>lat = c, lng = d\<rparr>\<rparr>],
         console := console s @ [(''Routing error:'', thrown_for r)]\<rparr>"
    by (simp add: getRoute_request_eq)
  show ?thesis
    by (subst s2)+ (simp add: resume)
qed

text \<open>
  A response without routes for a new destination while a route is shown: the drawn
  route stays and the failure toast is the last one.
\<close>

theorem getRoute_failure_reported_witness:
  "upstream_failure (Json \<lparr>code = Some ''Ok'', routes = Some []\<rparr>) \<and>
   routeLayer (getRoute_response (Json \<lparr>code = Some ''Ok'', routes = Some []\<rparr>)
      (getRoute_request (lat westminster) (lng westminster) (lat paris) (lng paris) routed_app)) =
     Some [westminster, london] \<and>
   last (toasts (getRoute_response (Json \<lparr>code = Some ''Ok'', routes = Some []\<rparr>)
      (getRoute_request (lat westminster) (lng westminster) (lat paris) (lng paris) routed_app))) =
     failure_toast"
proof -
  let ?r = "Json \<lparr>code = Some ''Ok'', routes = Some []\<rparr>"
  have h: "upstream_failure ?r" by simp
  note T = getRoute_failure_reported[OF h, where s = routed_app and a = "lat westminster"
      and b = "lng westminster" and c = "lat paris" and d = "lng paris"]
  from T have a: "routeLayer (getRoute_response ?r
      (getRoute_request (lat westminster) (lng westminster) (lat paris) (lng paris) routed_app)) =
     routeLayer routed_app"
    by blast
  from T have b: "toasts (getRoute_response ?r
      (getRoute_request (lat westminster) (lng westminster) (lat paris) (lng paris) routed_app)) =
     toasts routed_app @ [\<lparr>toast_glyph = [0x1F504], toast_text = ''Calculating route...'',
                                   toast_type = ''info''\<rparr>, failure_toast]"
    by blast
  from h a b show ?thesis by (simp add: routed_app_facts)
qed

text \<open>
  Claim C1 as stated fails: with a route from the user to London stored and shown, a
  request for a route to Paris that is rejected leaves the endpoints of the Paris
  request in \<open>currentRoute\<close>.
\<close>

theorem getRoute_failure_counterexample:
  "upstream_failure (Rejected TypeError) \<and>
   currentRoute routed_app = Some \<lparr>route_start = westminster, route_end = london\<rparr> \<and>
   currentRoute (getRoute_response (Rejected TypeError)
      (getRoute_request (lat westminster) (lng westminster) (lat paris) (lng paris) routed_app)) =
     Some \<lparr>route_start = westminster, route_end = paris\<rparr> \<and>
   currentRoute (getRoute_response (Rejected TypeError)
      (getRoute_request (lat westminster) (lng westminster) (lat paris) (lng paris) routed_app)) \<noteq>
     currentRoute routed_app"
  by code_simp

lemma drawRoute_fetches:
  "fetches (snd (drawRoute cs s)) = fetches s \<and> map_present (snd (drawRoute cs s)) = map_present s \<and>
   (\<not> map_present s \<longrightarrow> snd (drawRoute cs s) = s)"
  by (simp add: drawRoute_def)

lemma displayRouteSummary_fetches:
  "fetches (displayRouteSummary dk dm s) = fetches s \<and>
   map_present (displayRouteSummary dk dm s) = map_present s"
  by (simp add: displayRouteSummary_def Let_def split: element.splits)

lemma displayTurnByTurn_fetches:
  "fetches (snd (displayTurnByTurn sts s)) = fetches s \<and>
   map_present (snd (displayTurnByTurn sts s)) = map_present s"
  by (simp add: displayTurnByTurn_def split: element.splits option.splits)

lemma displayRoute_fetches:
  "fetches (snd (displayRoute route s)) = fetches s \<and>
   map_present (snd (displayRoute route s)) = map_present s"
proof (cases "geometry route")
  case None
  then show ?thesis by (simp add: displayRoute_def)
next
  case (Some g)
  let ?cs = "map (\<lambda>c. \<lparr>lat = snd c, lng = fst c\<rparr>) g"
  obtain o1 s1 where d: "drawRoute ?cs s = (o1, s1)" by (cases "drawRoute ?cs s") auto
  with drawRoute_fetches[of ?cs s]
  have f1: "fetches s1 = fetches s \<and> map_present s1 = map_present s" by simp
  let ?s2 = "displayRouteSummary (toFixed 1 (distance route / 1000)) \<lceil>duration route / 60\<rceil> s1"
  have f2: "fetches ?s2 = fetches s \<and> map_present ?s2 = map_present s"
    by (simp add: displayRouteSummary_fetches f1)
  show ?thesis
  proof (cases o1)
    case (Threw e)
    with Some d f1 show ?thesis by (simp add: displayRoute_def)
  next
    case Normal
    show ?thesis
    proof (cases "legs route")
      case None
      with Some d Normal f2 show ?thesis by (simp add: displayRoute_def Let_def)
    next
      case L: (Some ls)
      show ?thesis
      proof (cases ls)
        case Nil
        with Some d Normal L f2 show ?thesis by (simp add: displayRoute_def Let_def)
      next
        case (Cons leg rest)
        obtain o3 s3 where t: "displayTurnByTurn (leg_steps leg) ?s2 = (o3, s3)"
          by (cases "displayTurnByTurn (leg_steps leg) ?s2") auto
        with displayTurnByTurn_fetches[of "leg_steps leg" ?s2] f2
        have f3: "fetches s3 = fetches s \<and> map_present s3 = map_present s" by simp
        from Some d Normal L Cons t f3 show ?thesis
          by (cases o3)
             (simp_all add: displayRoute_def Let_def showToast_def show_directions_panel_def
                split: element.splits)
      qed
    qed
  qed
qed

lemma displayRoute_no_map: "\<not> map_present s \<Longrightarrow> snd (displayRoute route s) = s"
  by (cases "geometry route") (simp_all add: displayRoute_def drawRoute_def)

lemma getRoute_try_fetches:
  "fetches (snd (getRoute_try r s)) = fetches s \<and>
   map_present (snd (getRoute_try r s)) = map_present s \<and>
   (\<not> map_present s \<longrightarrow> snd (getRoute_try r s) = s)"
  by (cases r)
     (simp_all add: getRoute_try_def displayRoute_fetches displayRoute_no_map
        split: option.splits list.splits)

lemma getRoute_response_fetches: "fetches (getRoute_response r s) = fetches s"
proof -
  obtain out s1 where t: "getRoute_try r s = (out, s1)" by (cases "getRoute_try r s") auto
  with getRoute_try_fetches[of r s] have "fetches s1 = fetches s" by simp
  with t show ?thesis
    by (cases out) (simp_all add: getRoute_response_def showToast_def console_error_def)
qed

text \<open>
  No operation changes whether there is a map, and without a map none creates a layer
  or a marker: from the start of the page on, a route layer or a destination marker
  exists only on a map.
\<close>

lemma layers_on_map_response: "layers_on_map s \<Longrightarrow> layers_on_map (getRoute_response r s)"
proof -
  assume l: "layers_on_map s"
  obtain out s1 where t: "getRoute_try r s = (out, s1)" by (cases "getRoute_try r s") auto
  with getRoute_try_fetches[of r s]
  have m: "map_present s1 = map_present s" and n: "\<not> map_present s \<longrightarrow> s1 = s" by simp_all
  from l m n have "layers_on_map s1" by (auto simp: layers_on_map_def)
  with t show ?thesis
    by (cases out)
       (simp_all add: getRoute_response_def showToast_def console_error_def layers_on_map_def)
qed

lemma layers_on_map_request: "layers_on_map s \<Longrightarrow> layers_on_map (getRoute_request a b c d s)"
  by (simp add: getRoute_request_eq layers_on_map_def)

lemma layers_on_map_setDestination:
  "layers_on_map s \<Longrightarrow> layers_on_map (snd (setDestination la lo nm s))"
  by (auto simp: setDestination_def getRoute_request_eq showToast_def layers_on_map_def Let_def
      split: option.splits)

lemma layers_on_map_changeTravelMode:
  "layers_on_map s \<Longrightarrow> layers_on_map (changeTravelMode m w s)"
  by (auto simp: changeTravelMode_def setTravelMode_def console_error_def getRoute_request_eq
      layers_on_map_def Let_def split: option.splits)

lemma layers_on_map_start: "layers_on_map start_app"
  by (simp add: layers_on_map_def start_app_def)

lemma map_clearRoute_frame:
  "userLocation (snd (map_clearRoute s)) = userLocation s \<and>
   userMarker (snd (map_clearRoute s)) = userMarker s"
  by (simp add: map_clearRoute_def Let_def)

lemma map_clearRoute_normal:
  "map_present s \<or> (routeLayer s = None \<and> destinationMarker s = None) \<Longrightarrow>
     map_clearRoute s = (Normal, s\<lparr>routeLayer := None, destinationMarker := None\<rparr>)"
  by (cases "routeLayer s"; cases "destinationMarker s") (auto simp: map_clearRoute_def)

lemma clearRoute_normal:
  assumes "map_present s \<or> (routeLayer s = None \<and> destinationMarker s = None)"
  shows "clearRoute s =
     (Normal, s\<lparr>currentRoute := None, routeLayer := None, destinationMarker := None,
                 directions_panel_hidden := hide_panel (directions_panel_hidden s),
                 travel_mode_container_hidden := hide_panel (travel_mode_container_hidden s)\<rparr>)"
proof -
  from assms have "map_present (s\<lparr>currentRoute := None\<rparr>) \<or>
      (routeLayer (s\<lparr>currentRoute := None\<rparr>) = None \<and> destinationMarker (s\<lparr>currentRoute := None\<rparr>) = None)"
    by simp
  from map_clearRoute_normal[OF this] show ?thesis
    by (simp add: clearRoute_def)
qed

lemma clearRoute_keeps_user:
  "userLocation (snd (clearRoute s)) = userLocation s \<and>
   userMarker (snd (clearRoute s)) = userMarker s"
proof -
  obtain out s1 where m: "map_clearRoute (s\<lparr>currentRoute := None\<rparr>) = (out, s1)"
    by (cases "map_clearRoute (s\<lparr>currentRoute := None\<rparr>)") auto
  with map_clearRoute_frame[of "s\<lparr>currentRoute := None\<rparr>"]
  have "userLocation s1 = userLocation s \<and> userMarker s1 = userMarker s" by simp
  with m show ?thesis by (cases out) (simp_all add: clearRoute_def)
qed

lemma hide_panel_id: "p \<noteq> Element False \<Longrightarrow> hide_panel p = p"
  by (cases p) (auto simp: hide_panel_def)

text \<open>
  Claim C7. \<open>Routing.clearRoute\<close> never changes the user's location or marker. In a
  state where a layer or marker exists only on a map, as in every state the page
  reaches, it does not throw and leaves no stored endpoints, no route layer and no
  destination marker. With no route and no destination it does not throw and changes
  nothing but the class \<open>hidden\<close> of the two panels, which it sets; where they are
  hidden already or absent, the state is the same.
\<close>

theorem clearRoute_frame:
  "userLocation (snd (clearRoute s)) = userLocation s \<and>
   userMarker (snd (clearRoute s)) = userMarker s \<and>
   (layers_on_map s \<longrightarrow>
      fst (clearRoute s) = Normal \<and> currentRoute (snd (clearRoute s)) = None \<and>
      routeLayer (snd (clearRoute s)) = None \<and> destinationMarker (snd (clearRoute s)) = None \<and>
      layers_on_map (snd (clearRoute s))) \<and>
   (currentRoute s = None \<and> routeLayer s = None \<and> destinationMarker s = None \<longrightarrow>
      clearRoute s =
        (Normal, s\<lparr>directions_panel_hidden := hide_panel (directions_panel_hidden s),
                    travel_mode_container_hidden := hide_panel (travel_mode_container_hidden s)\<rparr>)) \<and>
   (currentRoute s = None \<and> routeLayer s = None \<and> destinationMarker s = None \<and>
    directions_panel_hidden s \<noteq> Element False \<and> travel_mode_container_hidden s \<noteq> Element False \<longrightarrow>
      clearRoute s = (Normal, s))"
proof -
  have a: "fst (clearRoute s) = Normal \<and> currentRoute (snd (clearRoute s)) = None \<and>
      routeLayer (snd (clearRoute s)) = None \<and> destinationMarker (snd (clearRoute s)) = None \<and>
      layers_on_map (snd (clearRoute s))"
    if "layers_on_map s"
  proof -
    from that have "map_present s \<or> (routeLayer s = None \<and> destinationMarker s = None)"
      by (simp add: layers_on_map_def)
    from clearRoute_normal[OF this] show ?thesis by (simp add: layers_on_map_def)
  qed
  have b: "clearRoute s =
        (Normal, s\<lparr>directions_panel_hidden := hide_panel (directions_panel_hidden s),
                    travel_mode_container_hidden := hide_panel (travel_mode_container_hidden s)\<rparr>)"
    if "currentRoute s = None \<and> routeLayer s = None \<and> destinationMarker s = None"
  proof -
    from that have "map_present s \<or> (routeLayer s = None \<and> destinationMarker s = None)" by simp
    from clearRoute_normal[OF this] that show ?thesis by simp
  qed
  have c: "clearRoute s = (Normal, s)"
    if "currentRoute s = None \<and> routeLayer s = None \<and> destinationMarker s = None \<and>
        directions_panel_hidden s \<noteq> Element False \<and> travel_mode_container_hidden s \<noteq> Element False"
  proof -
    from that have "currentRoute s = None \<and> routeLayer s = None \<and> destinationMarker s = None" by simp
    from b[OF this] that show ?thesis by (simp add: hide_panel_id)
  qed
  from clearRoute_keeps_user a b c show ?thesis by blast
qed

text \<open>
  Clearing at the start of the page, and clearing the route to London.
\<close>

theorem clearRoute_frame_witness:
  "clearRoute start_app = (Normal, start_app) \<and>
   fst (clearRoute routed_app) = Normal \<and> currentRoute (snd (clearRoute routed_app)) = None \<and>
   routeLayer (snd (clearRoute routed_app)) = None \<and>
   destinationMarker (snd (clearRoute routed_app)) = None \<and>
   userLocation (snd (clearRoute routed_app)) = Some westminster"
proof -
  note A = clearRoute_frame[of start_app] and B = clearRoute_frame[of routed_app]
  have hs: "currentRoute start_app = None \<and> routeLayer start_app = None \<and>
      destinationMarker start_app = None \<and> directions_panel_hidden start_app \<noteq> Element False \<and>
      travel_mode_container_hidden start_app \<noteq> Element False"
    by (simp add: start_app_facts)
  have hr: "layers_on_map routed_app"
    by (simp add: layers_on_map_def routed_app_facts)
  from A hs have a: "clearRoute start_app = (Normal, start_app)" by blast
  from B hr have b: "fst (clearRoute routed_app) = Normal \<and> currentRoute (snd (clearRoute routed_app)) = None \<and>
      routeLayer (snd (clearRoute routed_app)) = None \<and>
      destinationMarker (snd (clearRoute routed_app)) = None"
    by blast
  from B have "userLocation (snd (clearRoute routed_app)) = userLocation routed_app" by blast
  then have c: "userLocation (snd (clearRoute routed_app)) = Some westminster"
    by (simp add: routed_app_facts)
  from a b c show ?thesis by blast
qed

lemma drawRoute_currentRoute: "currentRoute (snd (drawRoute cs s)) = currentRoute s"
  by (simp add: drawRoute_def)

lemma displayRouteSummary_currentRoute:
  "currentRoute (displayRouteSummary dk dm s) = currentRoute s"
  by (simp add: displayRouteSummary_def Let_def split: element.splits)

lemma displayTurnByTurn_currentRoute:
  "currentRoute (snd (displayTurnByTurn sts s)) = currentRoute s"
  by (simp add: displayTurnByTurn_def split: element.splits option.splits)

lemma displayRoute_currentRoute: "currentRoute (snd (displayRoute route s)) = currentRoute s"
proof (cases "geometry route")
  case None
  then show ?thesis by (simp add: displayRoute_def)
next
  case (Some g)
  let ?cs = "map (\<lambda>c. \<lparr>lat = snd c, lng = fst c\<rparr>) g"
  obtain o1 s1 where d: "drawRoute ?cs s = (o1, s1)" by (cases "drawRoute ?cs s") auto
  with drawRoute_currentRoute[of ?cs s] have f1: "currentRoute s1 = currentRoute s" by simp
  let ?s2 = "displayRouteSummary (toFixed 1 (distance route / 1000)) \<lceil>duration route / 60\<rceil> s1"
  have f2: "currentRoute ?s2 = currentRoute s"
    by (simp add: displayRouteSummary_currentRoute f1)
  show ?thesis
  proof (cases o1)
    case (Threw e)
    with Some d f1 show ?thesis by (simp add: displayRoute_def)
  next
    case Normal
    show ?thesis
    proof (cases "legs route")
      case None
      with Some d Normal f2 show ?thesis by (simp add: displayRoute_def Let_def)
    next
      case L: (Some ls)
      show ?thesis
      proof (cases ls)
        case Nil
        with Some d Normal L f2 show ?thesis by (simp add: displayRoute_def Let_def)
      next
        case (Cons leg rest)
        obtain o3 s3 where t: "displayTurnByTurn (leg_steps leg) ?s2 = (o3, s3)"
          by (cases "displayTurnByTurn (leg_steps leg) ?s2") auto
        with displayTurnByTurn_currentRoute[of "leg_steps leg" ?s2] f2
        have f3: "currentRoute s3 = currentRoute s" by simp
        from Some d Normal L Cons t f3 show ?thesis
          by (cases o3)
             (simp_all add: displayRoute_def Let_def showToast_def show_directions_panel_def
                split: element.splits)
      qed
    qed
  qed
qed

lemma getRoute_response_currentRoute: "currentRoute (getRoute_response r s) = currentRoute s"
proof -
  obtain out s1 where t: "getRoute_try r s = (out, s1)" by (cases "getRoute_try r s") auto
  have "currentRoute (snd (getRoute_try r s)) = currentRoute s"
    by (cases r)
       (simp_all add: getRoute_try_def displayRoute_currentRoute split: option.splits list.splits)
  with t have "currentRoute s1 = currentRoute s" by simp
  with t show ?thesis
    by (cases out) (simp_all add: getRoute_response_def showToast_def console_error_def)
qed

lemma clearRoute_currentRoute: "currentRoute (snd (clearRoute s)) = None"
  by (auto simp: clearRoute_def map_clearRoute_def Let_def split: prod.splits outcome.splits
      option.splits if_splits)

text \<open>
  Claim C8, amended. A click on a travel-mode button sets the mode; it persists the
  mode when the write succeeds and logs the error when it fails. What decides the
  recomputation is whether endpoints are stored (\<open>this.currentRoute\<close>), not whether a
  route is shown. Without stored endpoints the click sends no request, the first time
  or the second. With stored endpoints every click sends one request, for the profile
  of the new mode and the stored start and end, and the endpoints stay; the drawn
  route is not touched. Endpoints are stored by every \<open>getRoute\<close> before its request
  is sent, kept by every response, failed or not, and dropped by \<open>clearRoute\<close> only.
\<close>

theorem changeTravelMode_recompute:
  "travelMode (changeTravelMode m w s) = m \<and>
   (w = None \<longrightarrow>
      stored_travel_mode (changeTravelMode m w s) = Some m \<and>
      console (changeTravelMode m w s) = console s) \<and>
   (w = Some e \<longrightarrow>
      stored_travel_mode (changeTravelMode m w s) = stored_travel_mode s \<and>
      console (changeTravelMode m w s) = console s @ [(''Error writing to localStorage:'', e)]) \<and>
   (currentRoute s = None \<longrightarrow>
      fetches (changeTravelMode m w s) = fetches s \<and>
      currentRoute (changeTravelMode m w s) = None \<and>
      fetches (changeTravelMode m w' (changeTravelMode m w s)) = fetches s) \<and>
   (currentRoute s = Some r \<longrightarrow>
      fetches (changeTravelMode m w s) =
        fetches s @ [\<lparr>rq_profile = osrm_profile m, rq_start = route_start r, rq_end = route_end r\<rparr>] \<and>
      currentRoute (changeTravelMode m w s) = Some r \<and>
      fetches (changeTravelMode m w' (changeTravelMode m w s)) =
        fetches s @ [\<lparr>rq_profile = osrm_profile m, rq_start = route_start r, rq_end = route_end r\<rparr>,
                     \<lparr>rq_profile = osrm_profile m, rq_start = route_start r, rq_end = route_end r\<rparr>]) \<and>
   routeLayer (changeTravelMode m w s) = routeLayer s \<and>
   currentRoute (getRoute_request a b c d s) =
     Some \<lparr>route_start = \<lparr>lat = a, lng = b\<rparr>, route_end = \<lparr>lat = c, lng = d\<rparr>\<rparr> \<and>
   currentRoute (getRoute_response rp s) = currentRoute s \<and>
   currentRoute (snd (clearRoute s)) = None"
proof -
  have mode: "travelMode (changeTravelMode m w s) = m"
    by (auto simp: changeTravelMode_def setTravelMode_def console_error_def getRoute_request_eq
        Let_def split: option.splits)
  have stored: "stored_travel_mode (changeTravelMode m w s) = Some m \<and>
      console (changeTravelMode m w s) = console s" if "w = None"
    using that
    by (auto simp: changeTravelMode_def setTravelMode_def getRoute_request_eq Let_def
        split: option.splits)
  have logged: "stored_travel_mode (changeTravelMode m w s) = stored_travel_mode s \<and>
      console (changeTravelMode m w s) = console s @ [(''Error writing to localStorage:'', e)]"
    if "w = Some e"
    using that
    by (auto simp: changeTravelMode_def setTravelMode_def console_error_def getRoute_request_eq
        Let_def split: option.splits)
  have none: "fetches (changeTravelMode m w s) = fetches s \<and>
      currentRoute (changeTravelMode m w s) = None \<and>
      fetches (changeTravelMode m w' (changeTravelMode m w s)) = fetches s"
    if "currentRoute s = None"
    using that
    by (auto simp: changeTravelMode_def setTravelMode_def console_error_def Let_def
        split: option.splits)
  have some: "fetches (changeTravelMode m w s) =
        fetches s @ [\<lparr>rq_profile = osrm_profile m, rq_start = route_start r, rq_end = route_end r\<rparr>] \<and>
      currentRoute (changeTravelMode m w s) = Some r \<and>
      fetches (changeTravelMode m w' (changeTravelMode m w s)) =
        fetches s @ [\<lparr>rq_profile = osrm_profile m, rq_start = route_start r, rq_end = route_end r\<rparr>,
                     \<lparr>rq_profile = osrm_profile m, rq_start = route_start r, rq_end = route_end r\<rparr>]"
    if "currentRoute s = Some r"
    using that
    by (auto simp: changeTravelMode_def setTravelMode_def console_error_def getRoute_request_eq
        Let_def split: option.splits)
  have layer: "routeLayer (changeTravelMode m w s) = routeLayer s"
    by (auto simp: changeTravelMode_def setTravelMode_def console_error_def getRoute_request_eq
        Let_def split: option.splits)
  have req: "currentRoute (getRoute_request a b c d s) =
     Some \<lparr>route_start = \<lparr>lat = a, lng = b\<rparr>, route_end = \<lparr>lat = c, lng = d\<rparr>\<rparr>"
    by (simp add: getRoute_request_eq)
  from mode stored logged none some layer req getRoute_response_currentRoute[of rp s]
    clearRoute_currentRoute[of s]
  show ?thesis by blast
qed

text \<open>
  The mode "walking" chosen twice at the start of the page, and with the route to
  London, the second time with a full storage.
\<close>

theorem changeTravelMode_recompute_witness:
  "currentRoute start_app = None \<and>
   fetches (changeTravelMode ''walking'' None (changeTravelMode ''walking'' None start_app)) = [] \<and>
   stored_travel_mode (changeTravelMode ''walking'' None start_app) = Some ''walking'' \<and>
   currentRoute routed_app = Some \<lparr>route_start = westminster, route_end = london\<rparr> \<and>
   fetches (changeTravelMode ''walking'' (Some quota_exceeded) routed_app) =
     fetches routed_app @ [\<lparr>rq_profile = ''foot'', rq_start = westminster, rq_end = london\<rparr>] \<and>
   console (changeTravelMode ''walking'' (Some quota_exceeded) routed_app) =
     console routed_app @ [(''Error writing to localStorage:'', quota_exceeded)]"
proof -
  note A = changeTravelMode_recompute[of "''walking''" None start_app quota_exceeded None]
  note B = changeTravelMode_recompute[of "''walking''" "Some quota_exceeded" routed_app
      quota_exceeded None "\<lparr>route_start = westminster, route_end = london\<rparr>"]
  have n: "currentRoute start_app = None" by (simp add: start_app_facts)
  have r: "currentRoute routed_app = Some \<lparr>route_start = westminster, route_end = london\<rparr>"
    by (simp add: routed_app_facts)
  from A n have a: "fetches (changeTravelMode ''walking'' None (changeTravelMode ''walking'' None start_app)) =
      fetches start_app" by blast
  from A have a2: "stored_travel_mode (changeTravelMode ''walking'' None start_app) = Some ''walking''"
    by blast
  from B r have b: "fetches (changeTravelMode ''walking'' (Some quota_exceeded) routed_app) =
     fetches routed_app @ [\<lparr>rq_profile = osrm_profile ''walking'',
       rq_start = route_start \<lparr>route_start = westminster, route_end = london\<rparr>,
       rq_end = route_end \<lparr>route_start = westminster, route_end = london\<rparr>\<rparr>]"
    by blast
  from B have b2: "console (changeTravelMode ''walking'' (Some quota_exceeded) routed_app) =
     console routed_app @ [(''Error writing to localStorage:'', quota_exceeded)]"
    by blast
  from n r a a2 b b2 show ?thesis by (simp add: start_app_facts osrm_profile_def)
qed

text \<open>
  Against claim C8 as written: after a request that failed no route is shown, neither
  drawn nor summarised, and still the mode "walking" chosen twice sends a request each
  time, since the endpoints of the failed request are stored.
\<close>

theorem changeTravelMode_after_failure_counterexample:
  "routeLayer failed_app = None \<and> route_summary failed_app = Element None \<and>
   turn_by_turn failed_app = Element [] \<and>
   toasts failed_app \<noteq> [] \<and> last (toasts failed_app) = failure_toast \<and>
   currentRoute failed_app = Some \<lparr>route_start = westminster, route_end = london\<rparr> \<and>
   map rq_profile (fetches failed_app) = [''car''] \<and>
   map rq_profile (fetches (changeTravelMode ''walking'' None failed_app)) = [''car'', ''foot''] \<and>
   map rq_profile (fetches (changeTravelMode ''walking'' None
      (changeTravelMode ''walking'' None failed_app))) = [''car'', ''foot'', ''foot'']"
  by code_simp

lemma displayTurnByTurn_summary:
  "route_summary (snd (displayTurnByTurn sts s)) = route_summary s"
  by (simp add: displayTurnByTurn_def split: element.splits option.splits)

lemma displayRouteSummary_present:
  "route_summary s = Element c \<Longrightarrow>
     route_summary (displayRouteSummary dk dm s) =
       Element (Some \<lparr>sum_icon = mode_icon (travelMode s), sum_distance = dk @ '' km'',
                      sum_duration = (if dm div 60 > 0
                                      then show_int (dm div 60) @ ''h '' @ show_int (js_rem dm 60) @ ''min''
                                      else show_int (js_rem dm 60) @ '' min'')\<rparr>)"
  by (simp add: displayRouteSummary_def Let_def)

lemma displayRoute_summary:
  assumes "map_present s" and "route_summary s = Element c" and "geometry route = Some g"
    and "g \<noteq> []"
  shows "route_summary (snd (displayRoute route s)) =
           route_summary (displayRouteSummary (toFixed 1 (distance route / 1000))
                            \<lceil>duration route / 60\<rceil> (s\<lparr>routeLayer := Some (map (\<lambda>c. \<lparr>lat = snd c, lng = fst c\<rparr>) g)\<rparr>))"
proof -
  let ?s1 = "s\<lparr>routeLayer := Some (map (\<lambda>c. \<lparr>lat = snd c, lng = fst c\<rparr>) g)\<rparr>"
  let ?s2 = "displayRouteSummary (toFixed 1 (distance route / 1000)) \<lceil>duration route / 60\<rceil> ?s1"
  have d: "drawRoute (map (\<lambda>c. \<lparr>lat = snd c, lng = fst c\<rparr>) g) s = (Normal, ?s1)"
    using assms(1,4) by (simp add: drawRoute_def)
  show ?thesis
  proof (cases "legs route")
    case None
    then show ?thesis using assms(3) d by (simp add: displayRoute_def Let_def)
  next
    case (Some ls)
    show ?thesis
    proof (cases ls)
      case Nil
      with Some show ?thesis using assms(3) d by (simp add: displayRoute_def Let_def)
    next
      case (Cons leg rest)
      obtain out s3 where t: "displayTurnByTurn (leg_steps leg) ?s2 = (out, s3)"
        by (cases "displayTurnByTurn (leg_steps leg) ?s2") auto
      with displayTurnByTurn_summary[of "leg_steps leg" ?s2]
      have s3: "route_summary s3 = route_summary ?s2" by simp
      show ?thesis
        using assms(3) d Some Cons t s3
        by (cases out) (simp_all add: displayRoute_def Let_def showToast_def show_directions_panel_def
            split: element.splits)
    qed
  qed
qed

lemma getRoute_response_summary:
  "route_summary (getRoute_response r s) = route_summary (snd (getRoute_try r s))"
  by (cases "getRoute_try r s"; cases "fst (getRoute_try r s)")
     (auto simp: getRoute_response_def showToast_def console_error_def)

lemma one_km: "toFixed 1 (1000 / 1000) @ '' km'' = ''1.0 km''"
  by code_simp

lemma two_min: "show_int (js_rem \<lceil>(120::rat) / 60\<rceil> 60) @ '' min'' = ''2 min''"
  by code_simp

text \<open>
  Claim C6, amended. With a map, the user at (51.5007, -0.1246), the mode "driving"
  and the summary element on the page, \<open>setDestination(51.5074, -0.1278, "London")\<close>
  sends exactly one request, with the profile "car" from the user to the destination;
  and when the response has \<open>code: "Ok"\<close> and a first route with a geometry of at
  least one point, the distance 1000 and the duration 120, no further request is sent and the summary shows
  "1.0 km" and "2 min".
\<close>

theorem setDestination_end_to_end:
  assumes "map_present s" and "userLocation s = Some westminster"
    and "travelMode s = ''driving''" and "route_summary s = Element c" and "g \<noteq> []"
  shows "fst (setDestination (lat london) (lng london) (Some ''London'') s) = Normal \<and>
         fetches (snd (setDestination (lat london) (lng london) (Some ''London'') s)) =
           fetches s @ [\<lparr>rq_profile = ''car'', rq_start = westminster, rq_end = london\<rparr>] \<and>
         fetches
           (getRoute_response
              (Json \<lparr>code = Some ''Ok'',
                     routes = Some (\<lparr>geometry = Some g, distance = 1000, duration = 120, legs = lg\<rparr> # others)\<rparr>)
              (snd (setDestination (lat london) (lng london) (Some ''London'') s))) =
           fetches s @ [\<lparr>rq_profile = ''car'', rq_start = westminster, rq_end = london\<rparr>] \<and>
         route_summary
           (getRoute_response
              (Json \<lparr>code = Some ''Ok'',
                     routes = Some (\<lparr>geometry = Some g, distance = 1000, duration = 120, legs = lg\<rparr> # others)\<rparr>)
              (snd (setDestination (lat london) (lng london) (Some ''London'') s))) =
           Element (Some \<lparr>sum_icon = [0x1F697], sum_distance = ''1.0 km'', sum_duration = ''2 min''\<rparr>)"
proof -
  let ?s1 = "snd (setDestination (lat london) (lng london) (Some ''London'') s)"
  let ?route = "\<lparr>geometry = Some g, distance = 1000, duration = 120, legs = lg\<rparr>"
  have out: "fst (setDestination (lat london) (lng london) (Some ''London'') s) = Normal"
    using assms(1) by (simp add: setDestination_def Let_def)
  have f: "fetches ?s1 = fetches s @ [\<lparr>rq_profile = ''car'', rq_start = westminster, rq_end = london\<rparr>]"
    using assms(1,2,3)
    by (simp add: setDestination_def Let_def getRoute_request_eq showToast_def osrm_profile_def
        westminster_def london_def)
  have m: "map_present ?s1" and t: "travelMode ?s1 = ''driving''" and r: "route_summary ?s1 = Element c"
    using assms(1-4)
    by (simp_all add: setDestination_def Let_def getRoute_request_eq showToast_def)
  have "route_summary (getRoute_response (Json \<lparr>code = Some ''Ok'', routes = Some (?route # others)\<rparr>) ?s1) =
        route_summary (snd (displayRoute ?route ?s1))"
    by (simp add: getRoute_response_summary getRoute_try_def)
  also have "\<dots> = route_summary (displayRouteSummary (toFixed 1 (distance ?route / 1000))
                            \<lceil>duration ?route / 60\<rceil> (?s1\<lparr>routeLayer := Some (map (\<lambda>c. \<lparr>lat = snd c, lng = fst c\<rparr>) g)\<rparr>))"
    by (rule displayRoute_summary[OF m r _ assms(5)]) simp
  also have "\<dots> = Element (Some \<lparr>sum_icon = mode_icon ''driving'',
       sum_distance = toFixed 1 (1000 / 1000) @ '' km'',
       sum_duration = show_int (js_rem \<lceil>(120::rat) / 60\<rceil> 60) @ '' min''\<rparr>)"
    using r t by (subst displayRouteSummary_present[where c = c]) simp_all
  also have "\<dots> = Element (Some \<lparr>sum_icon = [0x1F697], sum_distance = ''1.0 km'', sum_duration = ''2 min''\<rparr>)"
    by (simp only: one_km two_min) (simp add: mode_icon_def)
  finally show ?thesis using out f by (simp add: getRoute_response_fetches)
qed

text \<open>
  The sample page and the sample route.
\<close>

theorem setDestination_end_to_end_witness:
  "map_present start_app \<and> userLocation start_app = Some westminster \<and>
   travelMode start_app = ''driving'' \<and> route_summary start_app = Element None \<and>
   fetches (snd (setDestination (lat london) (lng london) (Some ''London'') start_app)) =
     [\<lparr>rq_profile = ''car'', rq_start = westminster, rq_end = london\<rparr>] \<and>
   route_summary routed_app =
     Element (Some \<lparr>sum_icon = [0x1F697], sum_distance = ''1.0 km'', sum_duration = ''2 min''\<rparr>)"
  using setDestination_end_to_end[of start_app None
      "[(- (1246 / 10000), 515007 / 10000), (- (1278 / 10000), 515074 / 10000)]"
      "Some [\<lparr>leg_steps = Some [depart_step]\<rparr>]" "[]"]
  by (simp add: start_app_facts routed_app_def ok_response_def ok_route_def)

text \<open>
  Claim C6 as stated fails: the response of the specification has \<open>status\<close> where
  the program reads \<open>code\<close>, and no geometry. With it, and also with \<open>code: "Ok"\<close>
  and no geometry, no summary is shown and the last toast is the failure.
\<close>

theorem stub_response_counterexample:
  "route_summary (getRoute_response stub_response
      (snd (setDestination (lat london) (lng london) (Some ''London'') start_app))) = Element None \<and>
   last (toasts (getRoute_response stub_response
      (snd (setDestination (lat london) (lng london) (Some ''London'') start_app)))) = failure_toast \<and>
   route_summary (getRoute_response stub_response_with_code
      (snd (setDestination (lat london) (lng london) (Some ''London'') start_app))) = Element None \<and>
   last (toasts (getRoute_response stub_response_with_code
      (snd (setDestination (lat london) (lng london) (Some ''London'') start_app)))) = failure_toast"
  by code_simp

section \<open>Searching\<close>

lemma hide_fields [simp]:
  "searchTimeout (hideSearchResults s) = searchTimeout s"
  "currentResults (hideSearchResults s) = currentResults s"
  "pending_timers (hideSearchResults s) = pending_timers s"
  "next_timer_id (hideSearchResults s) = next_timer_id s"
  "search_fetches (hideSearchResults s) = search_fetches s"
  "in_flight (hideSearchResults s) = in_flight s"
  "time_ms (hideSearchResults s) = time_ms s"
  by (simp_all add: hideSearchResults_def split: element.splits)

lemma show_fields [simp]:
  "searchTimeout (showSearchResults s) = searchTimeout s"
  "currentResults (showSearchResults s) = currentResults s"
  "pending_timers (showSearchResults s) = pending_timers s"
  "next_timer_id (showSearchResults s) = next_timer_id s"
  "search_fetches (showSearchResults s) = search_fetches s"
  "in_flight (showSearchResults s) = in_flight s"
  "time_ms (showSearchResults s) = time_ms s"
  by (simp_all add: showSearchResults_def split: element.splits)

lemma display_fields [simp]:
  "searchTimeout (displaySearchResults d s) = searchTimeout s"
  "currentResults (displaySearchResults d s) = currentResults s"
  "pending_timers (displaySearchResults d s) = pending_timers s"
  "next_timer_id (displaySearchResults d s) = next_timer_id s"
  "search_fetches (displaySearchResults d s) = search_fetches s"
  "in_flight (displaySearchResults d s) = in_flight s"
  "time_ms (displaySearchResults d s) = time_ms s"
  by (simp_all add: displaySearchResults_def split: element.splits)

lemma response_fields [simp]:
  "searchTimeout (performSearch_response r s) = searchTimeout s"
  "pending_timers (performSearch_response r s) = pending_timers s"
  "next_timer_id (performSearch_response r s) = next_timer_id s"
  "search_fetches (performSearch_response r s) = search_fetches s"
  "in_flight (performSearch_response r s) = in_flight s"
  "time_ms (performSearch_response r s) = time_ms s"
  "currentResults (performSearch_response r s) = (case r of Rejected e \<Rightarrow> currentResults s | Json d \<Rightarrow> d)"
  by (simp_all add: performSearch_response_def split: fetch_reply.splits)

lemma request_fields [simp]:
  "searchTimeout (performSearch_request q u s) = searchTimeout s"
  "currentResults (performSearch_request q u s) = currentResults s"
  "pending_timers (performSearch_request q u s) = pending_timers s"
  "next_timer_id (performSearch_request q u s) = next_timer_id s"
  "time_ms (performSearch_request q u s) = time_ms s"
  "in_flight (performSearch_request q u s) = in_flight s @ [length (search_fetches s)]"
  "map sq_query (search_fetches (performSearch_request q u s)) = map sq_query (search_fetches s) @ [q]"
  "length (search_fetches (performSearch_request q u s)) = Suc (length (search_fetches s))"
  "prefix (search_fetches s) (search_fetches (performSearch_request q u s))"
  by (simp_all add: performSearch_request_def Let_def)

lemma rendered_fields [simp]:
  "rendered (hideSearchResults s) = rendered s"
  "rendered (showSearchResults s) = rendered s"
  "rendered (performSearch_request q u s) = rendered s"
  "rendered (s\<lparr>time_ms := t\<rparr>) = rendered s"
  "rendered (s\<lparr>pending_timers := ts\<rparr>) = rendered s"
  "rendered (s\<lparr>in_flight := fl\<rparr>) = rendered s"
  "rendered (snd (setTimeout a dl s)) = rendered s"
  "rendered (clearTimeout i s) = rendered s"
  by (simp_all add: rendered_def hideSearchResults_def showSearchResults_def
      performSearch_request_def setTimeout_def clearTimeout_def Let_def split: element.splits)

lemma rendered_response:
  "rendered (performSearch_response r s) =
     (case r of Rejected e \<Rightarrow> rendered s | Json d \<Rightarrow> map_option (\<lambda>h. html_of d) (rendered s))"
  by (cases r)
     (simp_all add: rendered_def performSearch_response_def displaySearchResults_def html_of_def
        hideSearchResults_def showSearchResults_def split: element.splits)

lemma find_Some_set: "find P xs = Some x \<Longrightarrow> x \<in> set xs \<and> P x"
  by (induction xs) (auto split: if_splits)

lemma handle_time: "handle ev s = Some s' \<Longrightarrow> time_ms s' = time_ms s"
  by (cases ev)
     (auto simp: handle_def on_input_def on_blur_def on_focus_def setTimeout_def clearTimeout_def
        run_timer_def Let_def split: option.splits if_splits timer_action.splits)

lemma run_append:
  "run (xs @ ys) s = (case run xs s of None \<Rightarrow> None | Some sm \<Rightarrow> run ys sm)"
  by (induction xs arbitrary: s) (auto split: option.splits if_splits)

lemma run_times:
  "run es s = Some s' \<Longrightarrow> time_ms s \<le> time_ms s' \<and> (\<forall>x \<in> set es. fst x \<le> time_ms s')"
proof (induction es arbitrary: s)
  case Nil
  then show ?case by simp
next
  case (Cons x es)
  obtain t ev where x: "x = (t, ev)" by (cases x) auto
  from Cons.prems x obtain s1 where t: "\<not> t < time_ms s"
    and h: "handle ev (s\<lparr>time_ms := t\<rparr>) = Some s1" and r: "run es s1 = Some s'"
    by (auto split: if_splits option.splits)
  from handle_time[OF h] have "time_ms s1 = t" by simp
  with Cons.IH[OF r] t x show ?case by auto
qed

lemma handle_results:
  assumes h: "handle ev s = Some s'"
  shows "(currentResults s' = currentResults s \<and> rendered s' = rendered s) \<or>
         (\<exists>k d. ev = Reply k (Json d) \<and> currentResults s' = d \<and>
                rendered s' = map_option (\<lambda>h. html_of d) (rendered s))"
proof (cases ev)
  case (Input v)
  with h have s': "s' = on_input v s" by (simp add: handle_def)
  show ?thesis unfolding s'
    by (simp add: on_input_def setTimeout_def clearTimeout_def rendered_def Let_def
        hideSearchResults_def split: option.splits element.splits)
next
  case Blur
  with h show ?thesis by (auto simp: handle_def on_blur_def setTimeout_def rendered_def)
next
  case Focus
  with h show ?thesis by (auto simp: handle_def on_focus_def split: if_splits)
next
  case (Timeout j u)
  with h show ?thesis
    by (auto simp: handle_def run_timer_def Let_def split: option.splits if_splits timer_action.splits)
next
  case (Reply k r)
  with h show ?thesis
    by (cases r) (auto simp: handle_def rendered_response split: if_splits)
qed

lemma run_results:
  "run es s = Some s' \<Longrightarrow>
     (currentResults s' = currentResults s \<and> rendered s' = rendered s) \<or>
     (\<exists>x \<in> set es. \<exists>k d. snd x = Reply k (Json d) \<and> currentResults s' = d \<and>
            rendered s' = map_option (\<lambda>h. html_of d) (rendered s))"
proof (induction es arbitrary: s)
  case Nil
  then show ?case by simp
next
  case (Cons x es)
  obtain t ev where x: "x = (t, ev)" by (cases x) auto
  from Cons.prems x obtain s1 where
    h: "handle ev (s\<lparr>time_ms := t\<rparr>) = Some s1" and r: "run es s1 = Some s'"
    by (auto split: if_splits option.splits)
  from Cons.IH[OF r]
  have late: "(currentResults s' = currentResults s1 \<and> rendered s' = rendered s1) \<or>
      (\<exists>y \<in> set es. \<exists>k d. snd y = Reply k (Json d) \<and> currentResults s' = d \<and>
             rendered s' = map_option (\<lambda>h. html_of d) (rendered s1))" .
  from handle_results[OF h]
  have first: "(currentResults s1 = currentResults s \<and> rendered s1 = rendered s) \<or>
      (\<exists>k d. ev = Reply k (Json d) \<and> currentResults s1 = d \<and>
             rendered s1 = map_option (\<lambda>h. html_of d) (rendered s))" by simp
  from first show ?case
  proof
    assume "currentResults s1 = currentResults s \<and> rendered s1 = rendered s"
    with late show ?thesis by auto
  next
    assume "\<exists>k d. ev = Reply k (Json d) \<and> currentResults s1 = d \<and>
           rendered s1 = map_option (\<lambda>h. html_of d) (rendered s)"
    then obtain k0 d0 where e0: "ev = Reply k0 (Json d0)" "currentResults s1 = d0"
        "rendered s1 = map_option (\<lambda>h. html_of d0) (rendered s)" by blast
    from late show ?thesis
    proof
      assume "currentResults s' = currentResults s1 \<and> rendered s' = rendered s1"
      with e0 x show ?thesis by auto
    next
      assume "\<exists>y \<in> set es. \<exists>k d. snd y = Reply k (Json d) \<and> currentResults s' = d \<and>
           rendered s' = map_option (\<lambda>h. html_of d) (rendered s1)"
      then obtain y k d where y: "y \<in> set es" "snd y = Reply k (Json d)" "currentResults s' = d"
        "rendered s' = map_option (\<lambda>h. html_of d) (rendered s1)" by blast
      from y(4) e0(3) have "rendered s' = map_option (\<lambda>h. html_of d) (rendered s)"
        by (cases "rendered s") simp_all
      with y show ?thesis by auto
    qed
  qed
qed

lemma timers_tracked_time: "timers_tracked (s\<lparr>time_ms := t\<rparr>) = timers_tracked s"
  by (simp add: timers_tracked_def)

lemma timers_tracked_init: "timers_tracked (init_search el)"
  by (simp add: timers_tracked_def init_search_def)

lemma tracked_cleared:
  assumes "timers_tracked s"
  shows "\<forall>t \<in> set (pending_timers
            (case searchTimeout s of None \<Rightarrow> s | Some i \<Rightarrow> if i = 0 then s else clearTimeout i s)).
          timer_action t = HideResults"
  using assms
  by (cases "searchTimeout s") (auto simp: timers_tracked_def list_all_iff clearTimeout_def)

lemma on_input_tracked:
  assumes tr: "timers_tracked s"
  shows "timers_tracked (on_input v s)"
proof -
  from tr have p: "0 < next_timer_id s" by (simp add: timers_tracked_def)
  from tracked_cleared[OF tr] p show ?thesis
    by (cases "searchTimeout s")
       (auto simp: on_input_def timers_tracked_def list_all_iff setTimeout_def clearTimeout_def
          Let_def)
qed

lemma handle_tracked:
  assumes tr: "timers_tracked s" and h: "handle ev s = Some s'"
  shows "timers_tracked s'"
proof (cases ev)
  case (Input v)
  with h on_input_tracked[OF tr, of v] show ?thesis by (simp add: handle_def)
next
  case Blur
  with h tr show ?thesis
    by (auto simp: handle_def on_blur_def setTimeout_def timers_tracked_def list_all_iff)
next
  case Focus
  with h tr show ?thesis
    by (auto simp: handle_def on_focus_def timers_tracked_def split: if_splits)
next
  case (Timeout j u)
  with h tr show ?thesis
    by (auto simp: handle_def run_timer_def timers_tracked_def list_all_iff Let_def
        split: option.splits if_splits timer_action.splits)
next
  case (Reply k r)
  with h tr show ?thesis
    by (auto simp: handle_def timers_tracked_def split: if_splits)
qed

lemma run_tracked: "timers_tracked s \<Longrightarrow> run es s = Some s' \<Longrightarrow> timers_tracked s'"
proof (induction es arbitrary: s)
  case Nil
  then show ?case by simp
next
  case (Cons x es)
  obtain t ev where x: "x = (t, ev)" by (cases x) auto
  from Cons.prems(2) x obtain s1 where
    h: "handle ev (s\<lparr>time_ms := t\<rparr>) = Some s1" and r: "run es s1 = Some s'"
    by (auto split: if_splits option.splits)
  from Cons.prems(1) have "timers_tracked (s\<lparr>time_ms := t\<rparr>)" by (simp add: timers_tracked_time)
  from Cons.IH[OF handle_tracked[OF this h] r] show ?case .
qed

text \<open>Every state the page reaches has its timers tracked.\<close>

lemma timers_tracked_reachable: "run es (init_search el) = Some s \<Longrightarrow> timers_tracked s"
  by (rule run_tracked[OF timers_tracked_init])

lemma on_input_waiting:
  assumes tr: "timers_tracked s"
  shows "waiting (time_ms s + 300) (search_fetches s) (set (in_flight s)) (on_input v s)"
proof -
  from tr have p: "0 < next_timer_id s" by (simp add: timers_tracked_def)
  from tracked_cleared[OF tr] p show ?thesis
    by (cases "searchTimeout s")
       (auto simp: on_input_def waiting_def setTimeout_def clearTimeout_def Let_def)
qed

lemma waiting_tracked: "waiting due F I s \<Longrightarrow> timers_tracked s"
  by (auto simp: waiting_def timers_tracked_def list_all_iff)

lemma handle_waiting:
  assumes w: "waiting due F I s" and t: "time_ms s < due" and h: "handle ev s = Some s'"
  shows "waiting due F I s' \<and> (\<forall>k d. ev = Reply k d \<longrightarrow> k \<in> I)"
proof (cases ev)
  case (Input v)
  with h have s': "s' = on_input v s" by (simp add: handle_def)
  from tracked_cleared[OF waiting_tracked[OF w]] w show ?thesis unfolding s' Input
    by (cases "searchTimeout s")
       (auto simp: on_input_def waiting_def setTimeout_def clearTimeout_def Let_def)
next
  case Blur
  with h w show ?thesis
    by (auto simp: handle_def on_blur_def setTimeout_def waiting_def)
next
  case Focus
  with h w show ?thesis
    by (auto simp: handle_def on_focus_def waiting_def split: if_splits)
next
  case (Timeout j u)
  with h obtain tm where f: "find (\<lambda>t. timer_id t = j) (pending_timers s) = Some tm"
    and d: "timer_due tm \<le> time_ms s" and s': "s' = run_timer tm u s"
    by (auto simp: handle_def split: option.splits if_splits)
  from find_Some_set[OF f] have "tm \<in> set (pending_timers s)" by simp
  with w d t have a: "timer_action tm = HideResults"
    by (auto simp: waiting_def)
  with w s' Timeout show ?thesis
    by (auto simp: run_timer_def waiting_def)
next
  case (Reply k r)
  with h w show ?thesis
    by (auto simp: handle_def waiting_def split: if_splits)
qed

lemma run_waiting:
  "waiting due F I s \<Longrightarrow> \<forall>x \<in> set es. fst x < due \<Longrightarrow> run es s = Some s' \<Longrightarrow>
     waiting due F I s' \<and> (\<forall>x \<in> set es. \<forall>k d. snd x = Reply k d \<longrightarrow> k \<in> I)"
proof (induction es arbitrary: s)
  case Nil
  then show ?case by simp
next
  case (Cons x es)
  obtain t ev where x: "x = (t, ev)" by (cases x) auto
  from Cons.prems(3) x obtain s1 where later: "\<not> t < time_ms s"
    and h: "handle ev (s\<lparr>time_ms := t\<rparr>) = Some s1" and r: "run es s1 = Some s'"
    by (auto split: if_splits option.splits)
  from Cons.prems(1) later have w0: "waiting due F I (s\<lparr>time_ms := t\<rparr>)"
    by (simp add: waiting_def)
  from Cons.prems(2) x have t: "time_ms (s\<lparr>time_ms := t\<rparr>) < due" and te: "\<forall>x \<in> set es. fst x < due"
    by simp_all
  note H = handle_waiting[OF w0 t h]
  from H have w1: "waiting due F I s1" by blast
  from Cons.IH[OF w1 te r] H x show ?case by auto
qed

lemma on_input_only_queries:
  assumes w: "waiting due F I s" and v: "trim v \<in> Q"
  shows "only_queries Q (length F) I (on_input v s) \<and> search_fetches (on_input v s) = F"
proof -
  from tracked_cleared[OF waiting_tracked[OF w]] w v show ?thesis
    by (cases "searchTimeout s")
       (auto simp: on_input_def waiting_def only_queries_def setTimeout_def clearTimeout_def Let_def)
qed

lemma only_queries_fewer_timers:
  "only_queries Q n I s \<Longrightarrow> only_queries Q n I (s\<lparr>pending_timers := filter P (pending_timers s)\<rparr>)"
  by (auto simp: only_queries_def)

lemma handle_only_queries:
  assumes o: "only_queries Q n I s" and ni: "\<forall>v. ev = Input v \<longrightarrow> trim v \<in> Q"
    and h: "handle ev s = Some s'"
  shows "only_queries Q n I s' \<and> prefix (search_fetches s) (search_fetches s') \<and>
         (\<forall>k d. ev = Reply k d \<longrightarrow> k \<in> I \<or> (n \<le> k \<and> k < length (search_fetches s)))"
proof (cases ev)
  case (Input v)
  with ni have q: "trim v \<in> Q" by simp
  from Input h have s': "s' = on_input v s" by (simp add: handle_def)
  from o q show ?thesis unfolding s' Input
    by (cases "searchTimeout s")
       (auto simp: on_input_def only_queries_def setTimeout_def clearTimeout_def Let_def)
next
  case Blur
  with h o show ?thesis
    by (auto simp: handle_def on_blur_def setTimeout_def only_queries_def)
next
  case Focus
  with h o show ?thesis
    by (auto simp: handle_def on_focus_def only_queries_def split: if_splits)
next
  case (Timeout j u)
  with h obtain tm where f: "find (\<lambda>t. timer_id t = j) (pending_timers s) = Some tm"
    and s': "s' = run_timer tm u s"
    by (auto simp: handle_def split: option.splits if_splits)
  from find_Some_set[OF f] o
  have a: "timer_action tm = HideResults \<or> (\<exists>q \<in> Q. timer_action tm = RunSearch q)"
    by (auto simp: only_queries_def)
  let ?s1 = "s\<lparr>pending_timers := filter (\<lambda>u. timer_id u \<noteq> timer_id tm) (pending_timers s)\<rparr>"
  have o1: "only_queries Q n I ?s1" by (rule only_queries_fewer_timers[OF o])
  show ?thesis
  proof (cases "timer_action tm")
    case HideResults
    with s' o1 Timeout show ?thesis
      by (auto simp: run_timer_def only_queries_def)
  next
    case (RunSearch q')
    with a have q': "q' \<in> Q" by simp
    have "only_queries Q n I (performSearch_request q' u ?s1)"
      using o1 q' by (auto simp: only_queries_def performSearch_request_def Let_def nth_append less_Suc_eq)
    with s' RunSearch Timeout show ?thesis
      by (simp add: run_timer_def performSearch_request_def Let_def)
  qed
next
  case (Reply k r)
  with h have k: "k \<in> set (in_flight s)"
    and s': "s' = performSearch_response r (s\<lparr>in_flight := removeAll k (in_flight s)\<rparr>)"
    by (auto simp: handle_def split: if_splits)
  from o k have kb: "k \<in> I \<or> (n \<le> k \<and> k < length (search_fetches s))"
    by (auto simp: only_queries_def)
  have "only_queries Q n I s'" using o s' by (auto simp: only_queries_def)
  with s' kb Reply show ?thesis by simp
qed

lemma typed_Cons: "typed (x # es) = typed_of (snd x) @ typed es"
  by (simp add: typed_def)

lemma run_only_queries:
  "only_queries Q n I s \<Longrightarrow> set (typed es) \<subseteq> Q \<Longrightarrow> run es s = Some s' \<Longrightarrow>
     only_queries Q n I s' \<and> prefix (search_fetches s) (search_fetches s') \<and>
     (\<forall>x \<in> set es. \<forall>k d. snd x = Reply k d \<longrightarrow>
         k \<in> I \<or> (n \<le> k \<and> k < length (search_fetches s')))"
proof (induction es arbitrary: s)
  case Nil
  then show ?case by simp
next
  case (Cons x es)
  obtain t ev where x: "x = (t, ev)" by (cases x) auto
  from Cons.prems(3) x obtain s1 where
    h: "handle ev (s\<lparr>time_ms := t\<rparr>) = Some s1" and r: "run es s1 = Some s'"
    by (auto split: if_splits option.splits)
  from Cons.prems(1) have o0: "only_queries Q n I (s\<lparr>time_ms := t\<rparr>)"
    by (simp add: only_queries_def)
  from Cons.prems(2) x have n: "\<forall>v. ev = Input v \<longrightarrow> trim v \<in> Q" and ne: "set (typed es) \<subseteq> Q"
    by (auto simp: typed_Cons)
  note H = handle_only_queries[OF o0 n h]
  from H have o1: "only_queries Q n I s1" by blast
  note J = Cons.IH[OF o1 ne r]
  from H have p1: "prefix (search_fetches s) (search_fetches s1)" by simp
  from J have p2: "prefix (search_fetches s1) (search_fetches s')" by blast
  from p1 p2 have p: "prefix (search_fetches s) (search_fetches s')" by (rule prefix_order.trans)
  from p2 have le: "length (search_fetches s1) \<le> length (search_fetches s')" by (rule prefix_length_le)
  from p1 have le1: "length (search_fetches s) \<le> length (search_fetches s1)" by (rule prefix_length_le)
  have rep: "k \<in> I \<or> (n \<le> k \<and> k < length (search_fetches s'))" if "ev = Reply k d" for k d
  proof -
    from H that have "k \<in> I \<or> (n \<le> k \<and> k < length (search_fetches s))" by simp
    with le le1 show ?thesis by linarith
  qed
  from J rep p x show ?case by auto
qed

text \<open>
  Claim C2, amended. Let a value be typed at \<open>t1\<close> and another less than 300 ms
  later, with any events in between and after, typing included, in any state in
  which the timers are tracked, which every state of the page is; requests may be
  unanswered and a search may wait for its timer. Then no timer of the first value or
  of one typed in between ever fires: every request sent from then on is for the
  query of the second value or of one typed after it. An answer that arrives between
  the two inputs is for a request that was unanswered before; one that arrives later
  is for such a request or for one sent since. The results stored and rendered at the
  end are the former ones or the data of one of these answers; so, when no request
  was unanswered before, they are the former ones or those of an answer to a request
  for the second query or for one typed after it. Answers are applied as they arrive,
  whatever request they answer.
\<close>

theorem debounce_supersedes:
  assumes tr: "timers_tracked s" and t: "t2 < t1 + 300"
    and r: "run ((t1, Input q1) # mid @ (t2, Input q2) # es) s = Some s'"
  shows "prefix (search_fetches s) (search_fetches s') \<and>
         (\<forall>k. length (search_fetches s) \<le> k \<and> k < length (search_fetches s') \<longrightarrow>
              sq_query (search_fetches s' ! k) \<in> set (trim q2 # typed es)) \<and>
         (\<forall>x \<in> set mid. \<forall>k d. snd x = Reply k d \<longrightarrow> k \<in> set (in_flight s)) \<and>
         (\<forall>x \<in> set es. \<forall>k d. snd x = Reply k d \<longrightarrow>
              k \<in> set (in_flight s) \<or>
              (length (search_fetches s) \<le> k \<and> k < length (search_fetches s'))) \<and>
         ((currentResults s' = currentResults s \<and> rendered s' = rendered s) \<or>
          (\<exists>x \<in> set (mid @ es). \<exists>k d. snd x = Reply k (Json d) \<and> currentResults s' = d \<and>
                 rendered s' = map_option (\<lambda>h. html_of d) (rendered s))) \<and>
         (in_flight s = [] \<longrightarrow>
            (currentResults s' = currentResults s \<and> rendered s' = rendered s) \<or>
            (\<exists>x \<in> set es. \<exists>k d. snd x = Reply k (Json d) \<and>
                 length (search_fetches s) \<le> k \<and> k < length (search_fetches s') \<and>
                 sq_query (search_fetches s' ! k) \<in> set (trim q2 # typed es) \<and>
                 currentResults s' = d \<and>
                 rendered s' = map_option (\<lambda>h. html_of d) (rendered s))) \<and>
         timers_tracked s'"
proof -
  let ?s0 = "s\<lparr>time_ms := t1\<rparr>"
  let ?s1 = "on_input q1 ?s0"
  let ?n = "length (search_fetches s)"
  let ?Q = "set (trim q2 # typed es)"
  from r have r1: "run (mid @ (t2, Input q2) # es) ?s1 = Some s'"
    by (auto simp: handle_def split: if_splits)
  then obtain sm where rm: "run mid ?s1 = Some sm" and r2: "run ((t2, Input q2) # es) sm = Some s'"
    by (auto simp: run_append split: option.splits)
  let ?s2 = "on_input q2 (sm\<lparr>time_ms := t2\<rparr>)"
  from r2 have tm: "time_ms sm \<le> t2" and r3: "run es ?s2 = Some s'"
    by (auto simp: handle_def split: if_splits)
  from run_times[OF rm] tm t have early: "\<forall>x \<in> set mid. fst x < t1 + 300"
    by fastforce
  from tr have "timers_tracked ?s0" by (simp add: timers_tracked_time)
  from on_input_waiting[OF this]
  have w1: "waiting (t1 + 300) (search_fetches s) (set (in_flight s)) ?s1"
    by simp
  from run_waiting[OF w1 early rm]
  have wm: "waiting (t1 + 300) (search_fetches s) (set (in_flight s)) sm"
    and c1: "\<forall>x \<in> set mid. \<forall>k d. snd x = Reply k d \<longrightarrow> k \<in> set (in_flight s)"
    by blast+
  from wm tm have "waiting (t1 + 300) (search_fetches s) (set (in_flight s))
      (sm\<lparr>time_ms := t2\<rparr>)"
    by (simp add: waiting_def)
  from on_input_only_queries[OF this, of q2 ?Q]
  have o2: "only_queries ?Q ?n (set (in_flight s)) ?s2"
    and f2: "search_fetches ?s2 = search_fetches s"
    by simp_all
  have sub: "set (typed es) \<subseteq> ?Q" by auto
  note R = run_only_queries[OF o2 sub r3]
  from R f2 have a: "prefix (search_fetches s) (search_fetches s')" by simp
  from R have b: "\<forall>k. ?n \<le> k \<and> k < length (search_fetches s') \<longrightarrow>
              sq_query (search_fetches s' ! k) \<in> ?Q"
    by (simp add: only_queries_def)
  from R have c2: "\<forall>x \<in> set es. \<forall>k d. snd x = Reply k d \<longrightarrow>
              k \<in> set (in_flight s) \<or> (?n \<le> k \<and> k < length (search_fetches s'))"
    by blast
  from run_results[OF r]
  have d: "(currentResults s' = currentResults s \<and> rendered s' = rendered s) \<or>
          (\<exists>x \<in> set (mid @ es). \<exists>k d. snd x = Reply k (Json d) \<and> currentResults s' = d \<and>
                 rendered s' = map_option (\<lambda>h. html_of d) (rendered s))"
    by auto
  have e: "(currentResults s' = currentResults s \<and> rendered s' = rendered s) \<or>
            (\<exists>x \<in> set es. \<exists>k d. snd x = Reply k (Json d) \<and>
                 ?n \<le> k \<and> k < length (search_fetches s') \<and>
                 sq_query (search_fetches s' ! k) \<in> ?Q \<and>
                 currentResults s' = d \<and>
                 rendered s' = map_option (\<lambda>h. html_of d) (rendered s))"
    if idle: "in_flight s = []"
  proof -
    from d show ?thesis
    proof
      assume "currentResults s' = currentResults s \<and> rendered s' = rendered s"
      then show ?thesis by simp
    next
      assume "\<exists>x \<in> set (mid @ es). \<exists>k d. snd x = Reply k (Json d) \<and> currentResults s' = d \<and>
                 rendered s' = map_option (\<lambda>h. html_of d) (rendered s)"
      then obtain x k d where x: "x \<in> set (mid @ es)" "snd x = Reply k (Json d)"
        "currentResults s' = d" "rendered s' = map_option (\<lambda>h. html_of d) (rendered s)"
        by blast
      from c1 idle x(2) have "x \<notin> set mid" by auto
      with x(1) have xe: "x \<in> set es" by simp
      with c2 idle x(2) have kb: "?n \<le> k \<and> k < length (search_fetches s')" by auto
      with b have "sq_query (search_fetches s' ! k) \<in> ?Q" by blast
      with xe x kb show ?thesis by blast
    qed
  qed
  have f: "timers_tracked s'" by (rule run_tracked[OF tr r])
  from a b c1 c2 d e f show ?thesis by blast
qed

text \<open>
  "Central", then "Central Park" after 200 ms, from the start of the page: one
  request, for "Central Park", and its results are stored. And, while the request for
  "Central Park" is unanswered, "Cen", then within 200 ms a blur, "Central" and
  "Central Station": the one request sent since is for "Central Station".
\<close>

theorem debounce_supersedes_witness:
  "timers_tracked page_search \<and> (200::int) < 0 + 300 \<and>
   map_option (map sq_query \<circ> search_fetches) (run debounced_run page_search) = Some [''Central Park''] \<and>
   map_option currentResults (run debounced_run page_search) = Some [central_park] \<and>
   map_option rendered (run debounced_run page_search) =
     Some (Some (Items [(''Central Park'', ''New York, USA'')])) \<and>
   map_option in_flight (run busy_prefix page_search) = Some [0] \<and>
   map_option timers_tracked (run busy_prefix page_search) = Some True \<and>
   (600::int) < 400 + 300 \<and>
   map_option (map sq_query \<circ> search_fetches) (run (busy_prefix @ burst_run) page_search) =
     Some [''Central Park'', ''Central Station''] \<and>
   map_option currentResults (run (busy_prefix @ burst_run) page_search) = Some [central_station] \<and>
   map_option timers_tracked (run (busy_prefix @ burst_run) page_search) = Some True"
proof -
  have h: "timers_tracked page_search" "(200::int) < 0 + 300"
    by code_simp+
  have e: "map_option (length \<circ> search_fetches) (run debounced_run page_search) = Some 1"
    "map_option (length \<circ> search_fetches) (Some page_search) = Some 0"
    "trim ''Central Park'' = ''Central Park''"
    "map_option currentResults (run debounced_run page_search) = Some [central_park]"
    "map_option rendered (run debounced_run page_search) =
       Some (Some (Items [(''Central Park'', ''New York, USA'')]))"
    "typed [(500, Timeout 2 None), (600, Reply 0 (Json [central_park]))] = []"
    by code_simp+
  from e(1) obtain s' where s': "run debounced_run page_search = Some s'"
    and len: "length (search_fetches s') = 1"
    by auto
  from e(2) have len0: "length (search_fetches page_search) = 0" by simp
  from s' have r: "run ((0, Input ''Central'') # [] @ (200, Input ''Central Park'') #
      [(500, Timeout 2 None), (600, Reply 0 (Json [central_park]))]) page_search = Some s'"
    by (simp add: debounced_run_def)
  note T = debounce_supersedes[OF h r]
  from T have "\<forall>k. length (search_fetches page_search) \<le> k \<and> k < length (search_fetches s') \<longrightarrow>
      sq_query (search_fetches s' ! k) \<in> set (trim ''Central Park'' #
        typed [(500, Timeout 2 None), (600, Reply 0 (Json [central_park]))])"
    by blast
  with len len0 have "sq_query (search_fetches s' ! 0) = ''Central Park''"
    by (simp add: e(3) e(6))
  with len have "map sq_query (search_fetches s') = [''Central Park'']"
    by (cases "search_fetches s'") simp_all
  with s' have a: "map_option (map sq_query \<circ> search_fetches) (run debounced_run page_search) =
      Some [''Central Park'']"
    by simp
  have hb: "(600::int) < 400 + 300"
    by simp
  have eb: "map_option (length \<circ> search_fetches) (run (busy_prefix @ burst_run) page_search) = Some 2"
    "map_option (map sq_query \<circ> search_fetches) (run busy_prefix page_search) = Some [''Central Park'']"
    "map_option in_flight (run busy_prefix page_search) = Some [0]"
    "typed burst_later = []" "trim ''Central Station'' = ''Central Station''"
    "map_option currentResults (run (busy_prefix @ burst_run) page_search) = Some [central_station]"
    by code_simp+
  from eb(1) obtain sb' where sb': "run (busy_prefix @ burst_run) page_search = Some sb'"
    and lenb': "length (search_fetches sb') = 2"
    by auto
  from sb' obtain sb where sb: "run busy_prefix page_search = Some sb"
    and rb: "run burst_run sb = Some sb'"
    by (auto simp: run_append split: option.splits)
  from sb eb(2) have fb: "map sq_query (search_fetches sb) = [''Central Park'']" by simp
  then have lenb: "length (search_fetches sb) = 1"
    by (metis length_map length_Cons list.size(3) One_nat_def)
  from sb have trb: "timers_tracked sb"
    unfolding page_search_def by (rule timers_tracked_reachable)
  with sb have b0: "map_option timers_tracked (run busy_prefix page_search) = Some True"
    by simp
  from rb have rb': "run ((400, Input ''Cen'') # burst_mid @ (600, Input ''Central Station'') #
      burst_later) sb = Some sb'"
    by (simp add: burst_run_def)
  note TB = debounce_supersedes[OF trb hb rb']
  from TB have "\<forall>k. length (search_fetches sb) \<le> k \<and> k < length (search_fetches sb') \<longrightarrow>
      sq_query (search_fetches sb' ! k) \<in> set (trim ''Central Station'' # typed burst_later)"
    by blast
  with lenb lenb' have q1: "sq_query (search_fetches sb' ! 1) = ''Central Station''"
    by (simp add: eb(4) eb(5))
  from TB have "prefix (search_fetches sb) (search_fetches sb')" by blast
  then obtain zs where zs: "search_fetches sb' = search_fetches sb @ zs"
    by (auto simp: prefix_def)
  with lenb lenb' have "length zs = 1" by simp
  then obtain z where z: "zs = [z]" by (cases zs) auto
  from q1 zs z lenb have "sq_query z = ''Central Station''" by (simp add: nth_append)
  with zs z fb have "map sq_query (search_fetches sb') = [''Central Park'', ''Central Station'']"
    by simp
  with sb' have b: "map_option (map sq_query \<circ> search_fetches) (run (busy_prefix @ burst_run) page_search) =
      Some [''Central Park'', ''Central Station'']"
    by simp
  from TB have "timers_tracked sb'" by blast
  with sb' have c: "map_option timers_tracked (run (busy_prefix @ burst_run) page_search) = Some True"
    by simp
  from h a e(4) e(5) eb(3) b0 hb b eb(6) c show ?thesis by blast
qed

text \<open>
  Claim C2 as stated fails in its general part: typed 400 ms apart, both queries are
  sent; the answer for "Central" arrives after the answer for "Central Park" and
  replaces it, in the stored results and on the page.
\<close>

theorem stale_response_counterexample:
  "map_option (map sq_query \<circ> search_fetches) (run stale_run page_search) =
     Some [''Central'', ''Central Park''] \<and>
   map_option currentResults (run stale_run page_search) = Some [central_station] \<and>
   map_option search_results (run stale_run page_search) =
     Some (Element \<lparr>res_hidden = False, res_html = Items [(''Central Station'', ''Sydney, Australia'')]\<rparr>)"
  by code_simp

text \<open>
  Claim C9, amended. For a value of fewer than 3 characters after trimming, the input
  handler sends no request and sets no timer, cancels the search that was waiting,
  and hides the results element; the stored results and the content of the element
  stay.
\<close>

theorem short_query_hides_results:
  "length (trim v) < 3 \<Longrightarrow>
     search_fetches (on_input v s) = search_fetches s \<and>
     in_flight (on_input v s) = in_flight s \<and>
     currentResults (on_input v s) = currentResults s \<and>
     set (pending_timers (on_input v s)) \<subseteq> set (pending_timers s) \<and>
     (\<forall>i. searchTimeout s = Some i \<and> i \<noteq> 0 \<longrightarrow> i \<notin> timer_id ` set (pending_timers (on_input v s))) \<and>
     (\<forall>el. search_results s = Element el \<longrightarrow>
        search_results (on_input v s) = Element (el\<lparr>res_hidden := True\<rparr>)) \<and>
     (search_results s = Absent \<longrightarrow> search_results (on_input v s) = Absent)"
  by (cases "searchTimeout s")
     (auto simp: on_input_def clearTimeout_def hideSearchResults_def Let_def split: element.splits)

text \<open>
  The value " Ce " typed while the results of "Central Park" are shown.
\<close>

theorem short_query_hides_results_witness:
  "length (trim '' Ce '') < 3 \<and>
   map_option (search_fetches \<circ> on_input '' Ce '') (run shown_run page_search) =
     map_option search_fetches (run shown_run page_search) \<and>
   map_option (search_results \<circ> on_input '' Ce '') (run shown_run page_search) =
     Some (Element \<lparr>res_hidden = True, res_html = Items [(''Central Park'', ''New York, USA'')]\<rparr>)"
proof -
  have h: "length (trim '' Ce '') < 3" by code_simp
  have e: "map_option search_results (run shown_run page_search) =
     Some (Element \<lparr>res_hidden = False, res_html = Items [(''Central Park'', ''New York, USA'')]\<rparr>)"
    by code_simp
  then obtain s where s: "run shown_run page_search = Some s"
    and el: "search_results s = Element \<lparr>res_hidden = False, res_html = Items [(''Central Park'', ''New York, USA'')]\<rparr>"
    by auto
  note T = short_query_hides_results[OF h, of s]
  from T have a: "search_fetches (on_input '' Ce '' s) = search_fetches s" by blast
  from T el have b: "search_results (on_input '' Ce '' s) =
      Element (\<lparr>res_hidden = False, res_html = Items [(''Central Park'', ''New York, USA'')]\<rparr>\<lparr>res_hidden := True\<rparr>)"
    by blast
  from h a b s show ?thesis by simp
qed

text \<open>
  Claim C9 as stated fails: after "Ce" the results of the previous search are still
  stored, and the next focus shows them again.
\<close>

theorem short_query_keeps_results_counterexample:
  "length (trim ''Ce'') < 3 \<and>
   map_option currentResults (run (shown_run @ [(1000, Input ''Ce'')]) page_search) = Some [central_park] \<and>
   map_option currentResults (run (shown_run @ [(1000, Input ''Ce'')]) page_search) \<noteq> Some [] \<and>
   map_option search_results (run (shown_run @ [(1000, Input ''Ce''), (1100, Focus)]) page_search) =
     Some (Element \<lparr>res_hidden = False, res_html = Items [(''Central Park'', ''New York, USA'')]\<rparr>)"
  by code_simp

end
